theory Spec2Isabelle
  imports
    Main
    "HOL-Library.Multiset"
    "HOL-Library.Char_ord"
    "HOL-Library.List_Lexorder"
begin

section \<open>Data frames of the OpenF1 result resolution\<close>

text \<open>
  The two source files \<^verbatim>\<open>f1.py\<close> and \<^verbatim>\<open>f1_comments.py\<close> compute the finishing order of a
  session from two tables fetched from the OpenF1 API: the position feed and the driver
  roster. Both tables are pandas data frames built from a JSON array of objects.

  A cell is either null (\<open>None\<close>) or a JSON scalar. The payload of a number is never
  computed with by the code under study, it is only compared and passed through.
\<close>

datatype val = Num int | Str string

text \<open>
  One row type serves every frame of the pipeline. It has a field for each column the code
  ever names. A field is meaningful only when its column is listed in the frame's
  \<open>columns\<close>; every access below is guarded by that list, as pandas raises \<^verbatim>\<open>KeyError\<close>
  for a column that is not there. The schema is typed: \<open>driver_number\<close> is an integer that
  is always present (the precondition of the core), \<open>position\<close> and \<open>lap_number\<close> are
  nullable integers, \<open>date\<close> is a nullable ISO timestamp string compared as Python compares
  strings (lexicographically by code point).
\<close>

record row =
  driver_number :: int
  position :: "int option"
  date :: "string option"
  lap_number :: "int option"
  gap :: "val option"
  interval :: "val option"
  full_name :: "string option"
  team_name :: "string option"
  gap_to_leader :: "val option"

record frame =
  columns :: "string list"
  rows :: "row list"

datatype error = KeyError string

text \<open>\<^verbatim>\<open>df.empty\<close>: true when any axis has length zero.\<close>

definition df_empty :: "frame \<Rightarrow> bool" where
  "df_empty df \<longleftrightarrow> rows df = [] \<or> columns df = []"

text \<open>
  \<^verbatim>\<open>pd.DataFrame(r.json())\<close> on a JSON array of objects, and \<^verbatim>\<open>pd.DataFrame()\<close> on a failed
  request: a frame with no rows has no columns, no column name occurs twice, and the
  frame \<^verbatim>\<open>OpenF1Client.fetch\<close> returns on any failure is \<open>no_data\<close>.
\<close>

definition from_json :: "frame \<Rightarrow> bool" where
  "from_json df \<longleftrightarrow> (rows df = [] \<longrightarrow> columns df = []) \<and> distinct (columns df)"

definition no_data :: frame where
  "no_data = \<lparr>columns = [], rows = []\<rparr>"

subsection \<open>Sorting: \<^verbatim>\<open>sort_values\<close> with the default algorithm\<close>

text \<open>
  The code calls \<^verbatim>\<open>sort_values(by)\<close> with no \<^verbatim>\<open>kind\<close> argument. pandas then sorts the
  non-null keys with numpy's default \<^verbatim>\<open>quicksort\<close> and appends the rows with a null key in
  their original order (\<^verbatim>\<open>na_position='last'\<close>). pandas documents that only \<^verbatim>\<open>mergesort\<close>
  and \<^verbatim>\<open>stable\<close> are stable, so the order in which rows of equal key come out is not part
  of the contract. The sorting routine is therefore a parameter \<open>srt\<close> of the model, taking
  the comparison and the rows, and \<open>sort_contract\<close> is all that is known about it: the
  result is a rearrangement of the rows, in ascending order of the key.
\<close>

type_synonym sorter = "(row \<Rightarrow> row \<Rightarrow> bool) \<Rightarrow> row list \<Rightarrow> row list"

definition sort_contract :: "sorter \<Rightarrow> bool" where
  "sort_contract srt \<longleftrightarrow>
     (\<forall>le rs. mset (srt le rs) = mset rs \<and>
        ((\<forall>a b. le a b \<or> le b a) \<and> (\<forall>a b c. le a b \<longrightarrow> le b c \<longrightarrow> le a c)
           \<longrightarrow> sorted_wrt le (srt le rs)))"

definition sort_values :: "sorter \<Rightarrow> (row \<Rightarrow> 'k::linorder option) \<Rightarrow> row list \<Rightarrow> row list" where
  "sort_values srt key rs =
     srt (\<lambda>a b. the (key a) \<le> the (key b)) (filter (\<lambda>r. key r \<noteq> None) rs)
       @ filter (\<lambda>r. key r = None) rs"

text \<open>
  Two routines that meet the contract: \<open>stable_sort\<close> keeps rows of equal key in their
  original order (what \<^verbatim>\<open>kind='stable'\<close> would do), \<open>tie_reversing_sort\<close> brings them out in
  the opposite order.
\<close>

fun place :: "(row \<Rightarrow> row \<Rightarrow> bool) \<Rightarrow> row \<Rightarrow> row list \<Rightarrow> row list" where
  "place le r [] = [r]"
| "place le r (s # ss) = (if le r s then r # s # ss else s # place le r ss)"

definition stable_sort :: sorter where
  "stable_sort le rs = foldr (place le) rs []"

definition tie_reversing_sort :: sorter where
  "tie_reversing_sort le rs = stable_sort le (rev rs)"

subsection \<open>The pandas operations the code uses\<close>

text \<open>
  \<^verbatim>\<open>df[[c1, ..., cn]]\<close>: the listed columns in the listed order, \<^verbatim>\<open>KeyError\<close> when one is
  missing. The fields of the other columns are blanked. \<open>driver_number\<close> is in every
  selection the code makes.
\<close>

definition restrict_row :: "string list \<Rightarrow> row \<Rightarrow> row" where
  "restrict_row cs r =
     \<lparr>driver_number = driver_number r,
      position = (if ''position'' \<in> set cs then position r else None),
      date = (if ''date'' \<in> set cs then date r else None),
      lap_number = (if ''lap_number'' \<in> set cs then lap_number r else None),
      gap = (if ''gap'' \<in> set cs then gap r else None),
      interval = (if ''interval'' \<in> set cs then interval r else None),
      full_name = (if ''full_name'' \<in> set cs then full_name r else None),
      team_name = (if ''team_name'' \<in> set cs then team_name r else None),
      gap_to_leader = (if ''gap_to_leader'' \<in> set cs then gap_to_leader r else None)\<rparr>"

definition select_columns :: "string list \<Rightarrow> frame \<Rightarrow> error + frame" where
  "select_columns cs df =
     (case filter (\<lambda>c. c \<notin> set (columns df)) cs of
        [] \<Rightarrow> Inr \<lparr>columns = cs, rows = map (restrict_row cs) (rows df)\<rparr>
      | c # _ \<Rightarrow> Inl (KeyError c))"

text \<open>\<^verbatim>\<open>drop_duplicates()\<close>: of several equal rows the first is kept.\<close>

definition drop_duplicates :: "row list \<Rightarrow> row list" where
  "drop_duplicates rs = rev (remdups (rev rs))"

text \<open>
  \<^verbatim>\<open>groupby("driver_number", as_index=False).last()\<close>: one row for each distinct key, the keys
  ascending, the key column first. \<^verbatim>\<open>last()\<close> aggregates column by column and skips nulls:
  each cell is the last non-null value of its column within the group, null only when the
  whole column of the group is null.
\<close>

fun last_valid :: "'a option list \<Rightarrow> 'a option" where
  "last_valid [] = None"
| "last_valid (v # vs) = (case last_valid vs of None \<Rightarrow> v | Some w \<Rightarrow> Some w)"

definition agg_last :: "int \<Rightarrow> row list \<Rightarrow> row" where
  "agg_last k g =
     \<lparr>driver_number = k,
      position = last_valid (map position g),
      date = last_valid (map date g),
      lap_number = last_valid (map lap_number g),
      gap = last_valid (map gap g),
      interval = last_valid (map interval g),
      full_name = last_valid (map full_name g),
      team_name = last_valid (map team_name g),
      gap_to_leader = last_valid (map gap_to_leader g)\<rparr>"

definition group_keys :: "row list \<Rightarrow> int list" where
  "group_keys rs = sort (remdups (map driver_number rs))"

definition groupby_last :: "frame \<Rightarrow> error + frame" where
  "groupby_last df =
     (if ''driver_number'' \<notin> set (columns df) then Inl (KeyError ''driver_number'')
      else Inr
        \<lparr>columns = ''driver_number'' # filter (\<lambda>c. c \<noteq> ''driver_number'') (columns df),
         rows = map (\<lambda>k. agg_last k (filter (\<lambda>r. driver_number r = k) (rows df)))
                  (group_keys (rows df))\<rparr>)"

text \<open>
  \<^verbatim>\<open>left.merge(right, on="driver_number", how="left")\<close>: \<^verbatim>\<open>KeyError\<close> when either side lacks
  the key column. Every left row is kept, in the left order: once with the right side's
  columns null when no right row has its key, otherwise once for each matching right row,
  in the right order. A column other than the key that both sides have is renamed with
  the suffixes \<^verbatim>\<open>_x\<close> and \<^verbatim>\<open>_y\<close>, so that its plain name is no longer a column.
\<close>

definition null_row :: row where
  "null_row =
     \<lparr>driver_number = 0, position = None, date = None, lap_number = None, gap = None,
      interval = None, full_name = None, team_name = None, gap_to_leader = None\<rparr>"

definition overlay :: "string list \<Rightarrow> row \<Rightarrow> row \<Rightarrow> row" where
  "overlay cs a b =
     \<lparr>driver_number = driver_number a,
      position = (if ''position'' \<in> set cs then position b else position a),
      date = (if ''date'' \<in> set cs then date b else date a),
      lap_number = (if ''lap_number'' \<in> set cs then lap_number b else lap_number a),
      gap = (if ''gap'' \<in> set cs then gap b else gap a),
      interval = (if ''interval'' \<in> set cs then interval b else interval a),
      full_name = (if ''full_name'' \<in> set cs then full_name b else full_name a),
      team_name = (if ''team_name'' \<in> set cs then team_name b else team_name a),
      gap_to_leader = (if ''gap_to_leader'' \<in> set cs then gap_to_leader b else gap_to_leader a)\<rparr>"

definition merged_columns :: "string list \<Rightarrow> string list \<Rightarrow> string list" where
  "merged_columns lc rc =
     map (\<lambda>c. if c \<in> set rc then c @ ''_x'' else c) lc
       @ map (\<lambda>c. if c \<in> set lc then c @ ''_y'' else c) rc"

definition join_row :: "string list \<Rightarrow> row list \<Rightarrow> row \<Rightarrow> row list" where
  "join_row rc rrows a =
     (case filter (\<lambda>b. driver_number b = driver_number a) rrows of
        [] \<Rightarrow> [overlay rc a null_row]
      | b # bs \<Rightarrow> map (overlay rc a) (b # bs))"

definition merge_left :: "frame \<Rightarrow> frame \<Rightarrow> error + frame" where
  "merge_left l r =
     (if ''driver_number'' \<notin> set (columns l) \<or> ''driver_number'' \<notin> set (columns r)
      then Inl (KeyError ''driver_number'')
      else
        let rc = filter (\<lambda>c. c \<noteq> ''driver_number'') (columns r) in
        Inr \<lparr>columns = merged_columns (columns l) rc,
             rows = concat (map (join_row rc (rows r)) (rows l))\<rparr>)"

section \<open>The services of \<^verbatim>\<open>f1.py\<close>\<close>

text \<open>
  \<^verbatim>\<open>DriversService.list_by_session\<close>. The argument is what \<^verbatim>\<open>client.fetch("drivers", ...)\<close>
  returned. An empty frame is handed back as it is, without the three columns.
\<close>

definition list_by_session :: "sorter \<Rightarrow> frame \<Rightarrow> error + frame" where
  "list_by_session srt df =
     (if df_empty df then Inr df
      else
        case select_columns [''driver_number'', ''full_name'', ''team_name''] df of
          Inl e \<Rightarrow> Inl e
        | Inr d \<Rightarrow>
            Inr (d\<lparr>rows := sort_values srt (\<lambda>r. Some (driver_number r))
                              (drop_duplicates (rows d))\<rparr>))"

text \<open>
  The Position Reducer, lines 104 to 113 of \<^verbatim>\<open>ResultsService.finishing_order\<close>: the rows
  with a position, ordered by \<open>date\<close> if that column exists, else by \<open>lap_number\<close> if that
  one exists, else left as they came, then grouped by driver.
\<close>

definition notna_position :: "frame \<Rightarrow> error + frame" where
  "notna_position pos =
     (if ''position'' \<notin> set (columns pos) then Inl (KeyError ''position'')
      else Inr (pos\<lparr>rows := filter (\<lambda>r. position r \<noteq> None) (rows pos)\<rparr>))"

definition order_events :: "sorter \<Rightarrow> frame \<Rightarrow> frame" where
  "order_events srt pos =
     (if ''date'' \<in> set (columns pos) then pos\<lparr>rows := sort_values srt date (rows pos)\<rparr>
      else if ''lap_number'' \<in> set (columns pos)
      then pos\<lparr>rows := sort_values srt lap_number (rows pos)\<rparr>
      else pos)"

definition reduce_positions :: "sorter \<Rightarrow> frame \<Rightarrow> error + frame" where
  "reduce_positions srt pos =
     (case notna_position pos of
        Inl e \<Rightarrow> Inl e
      | Inr p \<Rightarrow> groupby_last (order_events srt p))"

text \<open>
  The gap handling, lines 120 to 134. \<open>gap_col\<close> is chosen once from the columns of the
  joined frame; \<open>format_gap\<close> is applied to each of its rows. On a frame without rows
  \<^verbatim>\<open>apply\<close> calls \<open>format_gap\<close> for no row and, in current pandas, yields an empty
  column, which the assignment adds.
\<close>

definition gap_col_of :: "frame \<Rightarrow> string option" where
  "gap_col_of df =
     (if ''gap'' \<in> set (columns df) then Some ''gap''
      else if ''interval'' \<in> set (columns df) then Some ''interval''
      else None)"

definition gap_cell :: "string \<Rightarrow> row \<Rightarrow> val option" where
  "gap_cell c r = (if c = ''gap'' then gap r else interval r)"

definition format_gap :: "string option \<Rightarrow> row \<Rightarrow> val" where
  "format_gap gap_col r =
     (if position r = Some 1 then Str ''Leader''
      else
        case gap_col of
          None \<Rightarrow> Str ''N/A''
        | Some c \<Rightarrow> (case gap_cell c r of None \<Rightarrow> Str ''N/A'' | Some v \<Rightarrow> v))"

definition assign_gap_to_leader :: "frame \<Rightarrow> frame" where
  "assign_gap_to_leader df =
     \<lparr>columns = (if ''gap_to_leader'' \<in> set (columns df) then columns df
                 else columns df @ [''gap_to_leader'']),
      rows = map (\<lambda>r. r\<lparr>gap_to_leader := Some (format_gap (gap_col_of df) r)\<rparr>) (rows df)\<rparr>"

text \<open>
  The frame \<^verbatim>\<open>df\<close> of line 117: the reduced positions, sorted by position and joined with
  the roster.
\<close>

definition joined :: "sorter \<Rightarrow> frame \<Rightarrow> frame \<Rightarrow> error + frame" where
  "joined srt pos_raw drv =
     (case reduce_positions srt pos_raw of
        Inl e \<Rightarrow> Inl e
      | Inr pos \<Rightarrow> merge_left (pos\<lparr>rows := sort_values srt position (rows pos)\<rparr>) drv)"

definition result_columns :: "string list" where
  "result_columns = [''position'', ''driver_number'', ''full_name'', ''team_name'', ''gap_to_leader'']"

text \<open>
  \<^verbatim>\<open>ResultsService.finishing_order\<close>. The arguments are what \<^verbatim>\<open>client.fetch\<close> returned for the
  endpoints \<^verbatim>\<open>position\<close> and \<^verbatim>\<open>drivers\<close>. The roster is listed before the position frame is
  looked at, and an empty position frame is returned as it is.
\<close>

definition finishing_order :: "sorter \<Rightarrow> frame \<Rightarrow> frame \<Rightarrow> error + frame" where
  "finishing_order srt pos_raw drv_raw =
     (case list_by_session srt drv_raw of
        Inl e \<Rightarrow> Inl e
      | Inr drv \<Rightarrow>
          if df_empty pos_raw then Inr pos_raw
          else
            (case joined srt pos_raw drv of
               Inl e' \<Rightarrow> Inl e'
             | Inr df \<Rightarrow> select_columns result_columns (assign_gap_to_leader df)))"

text \<open>
  The JSON objects of the two feeds as rows: a position event carries the columns of the
  position feed, a driver record those of the roster, a classification row the five columns
  of the output.
\<close>

definition position_event ::
  "int \<Rightarrow> int option \<Rightarrow> string option \<Rightarrow> int option \<Rightarrow> val option \<Rightarrow> val option \<Rightarrow> row" where
  "position_event d p t l g i =
     \<lparr>driver_number = d, position = p, date = t, lap_number = l, gap = g, interval = i,
      full_name = None, team_name = None, gap_to_leader = None\<rparr>"

definition driver_record :: "int \<Rightarrow> string option \<Rightarrow> string option \<Rightarrow> row" where
  "driver_record d n t =
     \<lparr>driver_number = d, position = None, date = None, lap_number = None, gap = None,
      interval = None, full_name = n, team_name = t, gap_to_leader = None\<rparr>"

definition classification_row ::
  "int option \<Rightarrow> int \<Rightarrow> string option \<Rightarrow> string option \<Rightarrow> val \<Rightarrow> row" where
  "classification_row p d n t g =
     \<lparr>driver_number = d, position = p, date = None, lap_number = None, gap = None,
      interval = None, full_name = n, team_name = t, gap_to_leader = Some g\<rparr>"

section \<open>The services of \<^verbatim>\<open>f1_comments.py\<close>\<close>

text \<open>
  The second file defines the same two methods again, with docstrings and comments. They
  are translated on their own, statement by statement, from lines 48 to 60 and 138 to 190
  of that file.
\<close>

definition list_by_session_comments :: "sorter \<Rightarrow> frame \<Rightarrow> error + frame" where
  "list_by_session_comments srt df =
     (if rows df = [] \<or> columns df = [] then Inr df
      else
        case select_columns [''driver_number'', ''full_name'', ''team_name''] df of
          Inl e \<Rightarrow> Inl e
        | Inr d \<Rightarrow>
            Inr \<lparr>columns = columns d,
                 rows = sort_values srt (\<lambda>r. Some (driver_number r))
                          (drop_duplicates (rows d))\<rparr>)"

definition format_gap_comments :: "string option \<Rightarrow> row \<Rightarrow> val" where
  "format_gap_comments gap_col r =
     (if position r = Some 1 then Str ''Leader''
      else if gap_col = None \<or> gap_cell (the gap_col) r = None then Str ''N/A''
      else the (gap_cell (the gap_col) r))"

definition finishing_order_comments :: "sorter \<Rightarrow> frame \<Rightarrow> frame \<Rightarrow> error + frame" where
  "finishing_order_comments srt pos_raw drv_raw =
     (case list_by_session_comments srt drv_raw of
        Inl e \<Rightarrow> Inl e
      | Inr drv \<Rightarrow>
          if rows pos_raw = [] \<or> columns pos_raw = [] then Inr pos_raw
          else if ''position'' \<notin> set (columns pos_raw) then Inl (KeyError ''position'')
          else
            let pos1 = pos_raw\<lparr>rows := filter (\<lambda>r. position r \<noteq> None) (rows pos_raw)\<rparr>;
                pos2 =
                  (if ''date'' \<in> set (columns pos1)
                   then pos1\<lparr>rows := sort_values srt date (rows pos1)\<rparr>
                   else if ''lap_number'' \<in> set (columns pos1)
                   then pos1\<lparr>rows := sort_values srt lap_number (rows pos1)\<rparr>
                   else pos1)
            in
              (case groupby_last pos2 of
                 Inl e1 \<Rightarrow> Inl e1
               | Inr pos3 \<Rightarrow>
                   (case merge_left (pos3\<lparr>rows := sort_values srt position (rows pos3)\<rparr>) drv of
                      Inl e2 \<Rightarrow> Inl e2
                    | Inr df \<Rightarrow>
                        let gap_col =
                              (if ''gap'' \<in> set (columns df) then Some ''gap''
                               else if ''interval'' \<in> set (columns df) then Some ''interval''
                               else None);
                            df1 =
                              \<lparr>columns =
                                 (if ''gap_to_leader'' \<in> set (columns df) then columns df
                                  else columns df @ [''gap_to_leader'']),
                               rows =
                                 map (\<lambda>r. r\<lparr>gap_to_leader := Some (format_gap_comments gap_col r)\<rparr>)
                                   (rows df)\<rparr>
                        in
                          select_columns
                            [''position'', ''driver_number'', ''full_name'', ''team_name'',
                             ''gap_to_leader'']
                            df1)))"

section \<open>Notions the properties are stated with\<close>

text \<open>
  The events that survive the null filter, those of one driver among them in arrival
  order, and the events in the order in which line 113 groups them.
\<close>

definition valid_events :: "frame \<Rightarrow> row list" where
  "valid_events pos = filter (\<lambda>r. position r \<noteq> None) (rows pos)"

definition ordered_events :: "sorter \<Rightarrow> frame \<Rightarrow> row list" where
  "ordered_events srt pos = rows (order_events srt (pos\<lparr>rows := valid_events pos\<rparr>))"

definition events_of :: "frame \<Rightarrow> int \<Rightarrow> row list" where
  "events_of pos k = filter (\<lambda>e. driver_number e = k) (valid_events pos)"

text \<open>
  The order of the session's ordering key: \<open>date\<close> if it is a column, else \<open>lap_number\<close> if
  it is one, else no order at all. A null key counts as the greatest.
\<close>

definition nulls_last_le :: "'k::linorder option \<Rightarrow> 'k option \<Rightarrow> bool" where
  "nulls_last_le x y \<longleftrightarrow>
     (case y of None \<Rightarrow> True | Some b \<Rightarrow> (case x of None \<Rightarrow> False | Some a \<Rightarrow> a \<le> b))"

definition key_le :: "frame \<Rightarrow> row \<Rightarrow> row \<Rightarrow> bool" where
  "key_le pos a b \<longleftrightarrow>
     (if ''date'' \<in> set (columns pos) then nulls_last_le (date a) (date b)
      else if ''lap_number'' \<in> set (columns pos) then nulls_last_le (lap_number a) (lap_number b)
      else True)"

text \<open>
  An event without ordering key: its cell in the session's ordering column is null, or the
  session has no ordering column.
\<close>

definition key_null :: "frame \<Rightarrow> row \<Rightarrow> bool" where
  "key_null pos e \<longleftrightarrow>
     (if ''date'' \<in> set (columns pos) then date e = None
      else if ''lap_number'' \<in> set (columns pos) then lap_number e = None
      else True)"

text \<open>
  The Gap Formatting Rule in the words of the specification. \<open>cols\<close> are the columns of the
  session's position feed.
\<close>

definition designated_gap :: "string list \<Rightarrow> row \<Rightarrow> val option" where
  "designated_gap cols r = (if ''gap'' \<in> set cols then gap r else interval r)"

definition gap_rule :: "string list \<Rightarrow> row \<Rightarrow> val" where
  "gap_rule cols r =
     (if position r = Some 1 then Str ''Leader''
      else if (''gap'' \<notin> set cols \<and> ''interval'' \<notin> set cols) \<or> designated_gap cols r = None
      then Str ''N/A''
      else the (designated_gap cols r))"

section \<open>Facts about the sorting routines\<close>

lemma mset_place: "mset (place le r rs) = add_mset r (mset rs)"
  by (induction rs) auto

lemma set_place: "set (place le r rs) = insert r (set rs)"
  by (induction rs) auto

lemma mset_stable_sort: "mset (stable_sort le rs) = mset rs"
  unfolding stable_sort_def by (induction rs) (auto simp: mset_place)

lemma sorted_place:
  assumes tot: "\<And>a b. le a b \<or> le b a"
    and tr: "\<And>a b c. le a b \<Longrightarrow> le b c \<Longrightarrow> le a c"
  shows "sorted_wrt le rs \<Longrightarrow> sorted_wrt le (place le r rs)"
proof (induction rs)
  case Nil
  then show ?case by simp
next
  case (Cons s ss)
  show ?case
  proof (cases "le r s")
    case True
    with Cons.prems tr show ?thesis by auto
  next
    case False
    with tot have "le s r" by blast
    with Cons False show ?thesis by (auto simp: set_place)
  qed
qed

lemma sorted_stable_sort:
  assumes tot: "\<And>a b. le a b \<or> le b a"
    and tr: "\<And>a b c. le a b \<Longrightarrow> le b c \<Longrightarrow> le a c"
  shows "sorted_wrt le (stable_sort le rs)"
  unfolding stable_sort_def
  by (induction rs) (auto intro: sorted_place [OF tot tr])

lemma sort_contract_stable_sort: "sort_contract stable_sort"
  unfolding sort_contract_def
  by (auto simp: mset_stable_sort intro!: sorted_stable_sort)

lemma sort_contract_tie_reversing_sort: "sort_contract tie_reversing_sort"
  unfolding sort_contract_def tie_reversing_sort_def
  by (auto simp: mset_stable_sort intro!: sorted_stable_sort)

lemma sort_contract_mset:
  assumes "sort_contract srt"
  shows "mset (srt le rs) = mset rs"
proof -
  from assms have "\<forall>le rs. mset (srt le rs) = mset rs \<and>
        ((\<forall>a b. le a b \<or> le b a) \<and> (\<forall>a b c. le a b \<longrightarrow> le b c \<longrightarrow> le a c)
           \<longrightarrow> sorted_wrt le (srt le rs))"
    unfolding sort_contract_def .
  then show ?thesis by (elim allE [of _ le] allE [of _ rs] conjE)
qed

lemma sort_contract_sorted:
  assumes "sort_contract srt"
    and tot: "\<And>a b. le a b \<or> le b a"
    and tr: "\<And>a b c. le a b \<Longrightarrow> le b c \<Longrightarrow> le a c"
  shows "sorted_wrt le (srt le rs)"
proof -
  from assms(1) have "\<forall>le rs. mset (srt le rs) = mset rs \<and>
        ((\<forall>a b. le a b \<or> le b a) \<and> (\<forall>a b c. le a b \<longrightarrow> le b c \<longrightarrow> le a c)
           \<longrightarrow> sorted_wrt le (srt le rs))"
    unfolding sort_contract_def .
  then have "(\<forall>a b. le a b \<or> le b a) \<and> (\<forall>a b c. le a b \<longrightarrow> le b c \<longrightarrow> le a c)
           \<longrightarrow> sorted_wrt le (srt le rs)"
    by (elim allE [of _ le] allE [of _ rs] conjE)
  moreover have "\<forall>a b. le a b \<or> le b a" using tot by blast
  moreover have "\<forall>a b c. le a b \<longrightarrow> le b c \<longrightarrow> le a c" using tr by blast
  ultimately show ?thesis by (elim impE conjI)
qed

lemma mset_sort_values:
  assumes "sort_contract srt"
  shows "mset (sort_values srt key rs) = mset rs"
proof -
  have "mset (sort_values srt key rs)
      = mset (filter (\<lambda>r. key r \<noteq> None) rs) + mset (filter (\<lambda>r. key r = None) rs)"
    by (simp add: sort_values_def sort_contract_mset [OF assms])
  also have "\<dots> = mset rs"
    by (induction rs) auto
  finally show ?thesis .
qed

lemma set_sort_values: "sort_contract srt \<Longrightarrow> set (sort_values srt key rs) = set rs"
  using mset_sort_values [of srt key rs] by (metis set_mset_mset)

lemma mset_ordered_events:
  "sort_contract srt \<Longrightarrow> mset (ordered_events srt pos) = mset (valid_events pos)"
  by (simp add: ordered_events_def order_events_def mset_sort_values)

lemma set_ordered_events:
  "sort_contract srt \<Longrightarrow> set (ordered_events srt pos) = set (valid_events pos)"
  using mset_ordered_events [of srt pos] by (metis set_mset_mset)

lemma ordered_events_position:
  "sort_contract srt \<Longrightarrow> e \<in> set (ordered_events srt pos) \<Longrightarrow> position e \<noteq> None"
  by (simp add: set_ordered_events valid_events_def)

lemma reduce_positions_Inr:
  "reduce_positions srt pos = Inr out \<longleftrightarrow>
     ''position'' \<in> set (columns pos) \<and> ''driver_number'' \<in> set (columns pos) \<and>
     out = \<lparr>columns = ''driver_number'' # filter (\<lambda>c. c \<noteq> ''driver_number'') (columns pos),
            rows = map (\<lambda>k. agg_last k (filter (\<lambda>r. driver_number r = k) (ordered_events srt pos)))
                     (group_keys (ordered_events srt pos))\<rparr>"
  by (auto simp: reduce_positions_def notna_position_def groupby_last_def order_events_def
      ordered_events_def valid_events_def)

section \<open>The Position Reducer\<close>

lemma group_keys_set: "group_keys rs = sorted_list_of_set (driver_number ` set rs)"
  unfolding group_keys_def by (metis sorted_list_of_set_sort_remdups set_map)

lemma group_keys_cong: "mset rs = mset rs' \<Longrightarrow> group_keys rs = group_keys rs'"
  by (metis group_keys_set set_mset_mset)


lemma last_valid_single [simp]: "last_valid [v] = v"
  by (cases v) auto

lemma agg_last_single: "driver_number r = k \<Longrightarrow> agg_last k [r] = r"
  by (simp add: agg_last_def)

lemma last_valid_all_valid:
  "vs \<noteq> [] \<Longrightarrow> \<forall>v\<in>set vs. v \<noteq> None \<Longrightarrow> last_valid vs = last vs"
proof (induction vs)
  case Nil
  then show ?case by simp
next
  case (Cons v vs)
  show ?case
  proof (cases "vs = []")
    case True
    then show ?thesis by (cases v) auto
  next
    case False
    with Cons have "last_valid vs = last vs" by simp
    moreover from False Cons.prems(2) have "last vs \<noteq> None"
      using last_in_set [of vs] by auto
    ultimately show ?thesis using False by (auto split: option.splits)
  qed
qed

lemma position_agg_last:
  assumes "g \<noteq> []" and "\<forall>e\<in>set g. position e \<noteq> None"
  shows "position (agg_last k g) = position (last g)"
  using assms by (simp add: agg_last_def last_valid_all_valid last_map)

lemma filter_key_permuted:
  assumes "mset rs' = mset rs" and "distinct (map driver_number rs)" and "r \<in> set rs"
  shows "filter (\<lambda>x. driver_number x = driver_number r) rs' = [r]"
proof -
  have "filter (\<lambda>x. driver_number x = driver_number r) rs = [r]"
    using assms(2,3)
  proof (induction rs)
    case Nil
    then show ?case by simp
  next
    case (Cons a rs)
    then show ?case
      by (auto simp: filter_empty_conv image_iff)
  qed
  moreover have "mset (filter (\<lambda>x. driver_number x = driver_number r) rs')
      = mset (filter (\<lambda>x. driver_number x = driver_number r) rs)"
    using assms(1) by (metis mset_filter)
  ultimately have "mset (filter (\<lambda>x. driver_number x = driver_number r) rs') = {#r#}"
    by (simp del: mset_filter)
  then show ?thesis by (simp only: mset_single_iff)
qed

lemma distinct_group_keys: "distinct (group_keys rs)" "set (group_keys rs) = driver_number ` set rs"
  by (simp_all add: group_keys_set)

lemma sorted_group_keys: "sorted (group_keys rs)"
  by (simp add: group_keys_def)

lemma driver_number_agg_last [simp]: "driver_number (agg_last k g) = k"
  by (simp add: agg_last_def)

text \<open>
  Claim C9: the Position Reducer is idempotent. Reducing a reduced frame gives the same
  frame again, columns and rows, whatever admissible sorting routine is used: its rows
  all have a position, each driver occurs once, and a group of one row aggregates to that
  row.
\<close>

theorem reduce_positions_idempotent:
  assumes srt: "sort_contract srt" and red: "reduce_positions srt pos = Inr out"
  shows "reduce_positions srt out = Inr out"
proof -
  let ?ord = "ordered_events srt pos"
  let ?ks = "group_keys ?ord"
  from red have cols: "''position'' \<in> set (columns pos)" "''driver_number'' \<in> set (columns pos)"
    and out: "out = \<lparr>columns = ''driver_number'' # filter (\<lambda>c. c \<noteq> ''driver_number'') (columns pos),
            rows = map (\<lambda>k. agg_last k (filter (\<lambda>r. driver_number r = k) ?ord)) ?ks\<rparr>"
    by (simp_all add: reduce_positions_Inr)
  have keys: "map driver_number (rows out) = ?ks"
    by (simp add: out comp_def)
  have dist: "distinct (map driver_number (rows out))"
    by (simp only: keys distinct_group_keys)
  have valid: "position r \<noteq> None" if "r \<in> set (rows out)" for r
  proof -
    from that obtain k where k: "k \<in> set ?ks"
      and r: "r = agg_last k (filter (\<lambda>r. driver_number r = k) ?ord)"
      by (auto simp: out)
    let ?g = "filter (\<lambda>r. driver_number r = k) ?ord"
    from k have ne: "?g \<noteq> []"
      by (auto simp: distinct_group_keys filter_empty_conv)
    have av: "\<forall>e\<in>set ?g. position e \<noteq> None"
      using ordered_events_position [OF srt, of _ pos] by simp
    have "position r = position (last ?g)"
      unfolding r using ne av by (rule position_agg_last)
    moreover have "last ?g \<in> set ?g"
      using ne by (rule last_in_set)
    ultimately show ?thesis using av by metis
  qed
  then have ve: "valid_events out = rows out"
    by (simp add: valid_events_def)
  have perm: "mset (ordered_events srt out) = mset (rows out)"
    using mset_ordered_events [OF srt, of out] ve by simp
  have ks2: "group_keys (ordered_events srt out) = ?ks"
  proof -
    have "group_keys (ordered_events srt out) = group_keys (rows out)"
      using perm by (rule group_keys_cong)
    also have "\<dots> = sort (remdups ?ks)"
      by (simp add: group_keys_def keys)
    also have "\<dots> = ?ks"
      by (simp add: distinct_group_keys sorted_group_keys sort_key_id_if_sorted)
    finally show ?thesis .
  qed
  have rows2: "map (\<lambda>k. agg_last k (filter (\<lambda>r. driver_number r = k) (ordered_events srt out))) ?ks
      = rows out"
  proof -
    have "agg_last (driver_number r) (filter (\<lambda>x. driver_number x = driver_number r) (ordered_events srt out)) = r"
      if "r \<in> set (rows out)" for r
      using filter_key_permuted [OF perm dist that] by (simp add: agg_last_single)
    then have "map (\<lambda>r. agg_last (driver_number r) (filter (\<lambda>x. driver_number x = driver_number r) (ordered_events srt out))) (rows out) = rows out"
      by (simp add: map_idI)
    then show ?thesis
      by (simp only: flip: keys) (simp add: comp_def)
  qed
  have "''position'' \<in> set (columns out)" "''driver_number'' \<in> set (columns out)"
    using cols by (simp_all add: out)
  moreover have "''driver_number'' # filter (\<lambda>c. c \<noteq> ''driver_number'') (columns out) = columns out"
    by (simp add: out)
  ultimately show ?thesis
    unfolding reduce_positions_Inr [of srt out out] ks2 rows2 by simp
qed


text \<open>
  The theorem at a feed of four events for two drivers, one of them without a position:
  the reducer's output is reduced to itself.
\<close>

theorem reduce_positions_idempotent_witness:
  "sort_contract stable_sort \<and>
   reduce_positions stable_sort
     \<lparr>columns = [''position'', ''driver_number'', ''date'', ''gap''],
      rows = [position_event 44 (Some 1) (Some ''2024-05-26T13:05:00'') None None None,
              position_event 16 (Some 2) (Some ''2024-05-26T13:04:00'') None (Some (Str ''+1.5'')) None,
              position_event 44 (Some 3) (Some ''2024-05-26T13:03:00'') None (Some (Str ''+7.2'')) None,
              position_event 16 None (Some ''2024-05-26T13:06:00'') None (Some (Str ''+9.9'')) None]\<rparr>
   = Inr \<lparr>columns = [''driver_number'', ''position'', ''date'', ''gap''],
      rows = [position_event 16 (Some 2) (Some ''2024-05-26T13:04:00'') None (Some (Str ''+1.5'')) None,
              position_event 44 (Some 1) (Some ''2024-05-26T13:05:00'') None (Some (Str ''+7.2'')) None]\<rparr> \<and>
   reduce_positions stable_sort
     \<lparr>columns = [''driver_number'', ''position'', ''date'', ''gap''],
      rows = [position_event 16 (Some 2) (Some ''2024-05-26T13:04:00'') None (Some (Str ''+1.5'')) None,
              position_event 44 (Some 1) (Some ''2024-05-26T13:05:00'') None (Some (Str ''+7.2'')) None]\<rparr>
   = Inr \<lparr>columns = [''driver_number'', ''position'', ''date'', ''gap''],
      rows = [position_event 16 (Some 2) (Some ''2024-05-26T13:04:00'') None (Some (Str ''+1.5'')) None,
              position_event 44 (Some 1) (Some ''2024-05-26T13:05:00'') None (Some (Str ''+7.2'')) None]\<rparr>"
proof -
  have first: "reduce_positions stable_sort
     \<lparr>columns = [''position'', ''driver_number'', ''date'', ''gap''],
      rows = [position_event 44 (Some 1) (Some ''2024-05-26T13:05:00'') None None None,
              position_event 16 (Some 2) (Some ''2024-05-26T13:04:00'') None (Some (Str ''+1.5'')) None,
              position_event 44 (Some 3) (Some ''2024-05-26T13:03:00'') None (Some (Str ''+7.2'')) None,
              position_event 16 None (Some ''2024-05-26T13:06:00'') None (Some (Str ''+9.9'')) None]\<rparr>
   = Inr \<lparr>columns = [''driver_number'', ''position'', ''date'', ''gap''],
      rows = [position_event 16 (Some 2) (Some ''2024-05-26T13:04:00'') None (Some (Str ''+1.5'')) None,
              position_event 44 (Some 1) (Some ''2024-05-26T13:05:00'') None (Some (Str ''+7.2'')) None]\<rparr>"
    by code_simp
  from sort_contract_stable_sort first
    reduce_positions_idempotent [OF sort_contract_stable_sort first]
  show ?thesis by (intro conjI)
qed

lemma nulls_last_le_refl: "nulls_last_le x x"
  by (simp add: nulls_last_le_def split: option.splits)

lemma key_le_refl: "key_le pos a a"
  by (simp add: key_le_def nulls_last_le_refl)

lemma sorted_wrt_all: "(\<And>x y. P x y) \<Longrightarrow> sorted_wrt P xs"
  by (induction xs) auto

lemma sorted_sort_values:
  assumes "sort_contract srt"
  shows "sorted_wrt (\<lambda>a b. nulls_last_le (key a) (key b)) (sort_values srt key rs)"
proof -
  let ?le = "\<lambda>a b. the (key a) \<le> the (key b)"
  let ?F1 = "filter (\<lambda>r. key r \<noteq> None) rs"
  let ?F2 = "filter (\<lambda>r. key r = None) rs"
  let ?Q = "\<lambda>a b. nulls_last_le (key a) (key b)"
  have perm: "mset (srt ?le ?F1) = mset ?F1"
    by (rule sort_contract_mset [OF assms])
  then have mem: "set (srt ?le ?F1) = set ?F1"
    by (metis set_mset_mset)
  have "sorted_wrt ?le (srt ?le ?F1)"
    by (rule sort_contract_sorted [OF assms]) auto
  then have s1: "sorted_wrt ?Q (srt ?le ?F1)"
  proof (rule sorted_wrt_mono_rel [rotated])
    fix a b
    assume ab: "a \<in> set (srt ?le ?F1)" "b \<in> set (srt ?le ?F1)" and le: "?le a b"
    from ab have "key a \<noteq> None" "key b \<noteq> None"
      unfolding mem by simp_all
    with le show "?Q a b"
      by (auto simp: nulls_last_le_def)
  qed
  have s2: "sorted_wrt ?Q ?F2"
    by (rule sorted_wrt_mono_rel [where P = "\<lambda>a b. True"])
       (auto simp: nulls_last_le_def intro: sorted_wrt_all)
  have cross: "\<forall>a\<in>set (srt ?le ?F1). \<forall>b\<in>set ?F2. ?Q a b"
    by (auto simp: nulls_last_le_def)
  show ?thesis
    unfolding sort_values_def sorted_wrt_append using s1 s2 cross by blast
qed

lemma sorted_ordered_events:
  assumes "sort_contract srt"
  shows "sorted_wrt (key_le pos) (ordered_events srt pos)"
proof -
  have "key_le pos = (\<lambda>a b. nulls_last_le (date a) (date b))" if "''date'' \<in> set (columns pos)"
    using that by (simp add: key_le_def fun_eq_iff)
  moreover have "key_le pos = (\<lambda>a b. nulls_last_le (lap_number a) (lap_number b))"
    if "''date'' \<notin> set (columns pos)" "''lap_number'' \<in> set (columns pos)"
    using that by (simp add: key_le_def fun_eq_iff)
  moreover have "key_le pos = (\<lambda>a b. True)"
    if "''date'' \<notin> set (columns pos)" "''lap_number'' \<notin> set (columns pos)"
    using that by (simp add: key_le_def fun_eq_iff)
  ultimately show ?thesis
    using sorted_sort_values [OF assms]
    by (cases "''date'' \<in> set (columns pos)"; cases "''lap_number'' \<in> set (columns pos)")
       (simp_all add: ordered_events_def order_events_def sorted_wrt_all)
qed

lemma unordered_events:
  "''date'' \<notin> set (columns pos) \<Longrightarrow> ''lap_number'' \<notin> set (columns pos) \<Longrightarrow>
   ordered_events srt pos = valid_events pos"
  by (simp add: ordered_events_def order_events_def)

text \<open>The group of a key within the ordered events.\<close>

lemma group_of_key:
  fixes k :: int and pos :: frame and srt :: sorter
  defines "g \<equiv> filter (\<lambda>r. driver_number r = k) (ordered_events srt pos)"
  assumes srt: "sort_contract srt"
  shows "mset g = mset (events_of pos k)"
    and "sorted_wrt (key_le pos) g"
    and "''date'' \<notin> set (columns pos) \<Longrightarrow> ''lap_number'' \<notin> set (columns pos) \<Longrightarrow> g = events_of pos k"
proof -
  show "mset g = mset (events_of pos k)"
    unfolding g_def events_of_def using mset_ordered_events [OF srt, of pos]
    by (metis mset_filter)
  show "sorted_wrt (key_le pos) g"
    unfolding g_def by (rule sorted_wrt_filter) (rule sorted_ordered_events [OF srt])
  show "g = events_of pos k"
    if "''date'' \<notin> set (columns pos)" "''lap_number'' \<notin> set (columns pos)"
    unfolding g_def events_of_def using that by (simp add: unordered_events)
qed

lemma reduced_row_group:
  assumes "reduce_positions srt pos = Inr out" and "r \<in> set (rows out)"
  shows "driver_number r \<in> driver_number ` set (ordered_events srt pos)"
    and "r = agg_last (driver_number r)
               (filter (\<lambda>e. driver_number e = driver_number r) (ordered_events srt pos))"
  using assms by (auto simp: reduce_positions_Inr distinct_group_keys)

lemma sorted_wrt_last:
  assumes "sorted_wrt P g" and "\<And>x. P x x" and "x \<in> set g"
  shows "P x (last g)"
  using assms by (induction g) (auto split: if_splits)

text \<open>
  Claim C3, amended. The reducer discards the events with a null position, orders the rest
  by the session's ordering key, and emits one row for each driver that has an event left,
  the drivers ascending. The row is built column by column from the driver's events in
  that order (\<open>g\<close>): each cell is the last non-null value of its column, so the position is
  the one of the last event, and another cell may come from an earlier event.
\<close>

theorem reduce_positions_columnwise:
  assumes "sort_contract srt" and "reduce_positions srt pos = Inr out"
  shows "map driver_number (rows out) = sorted_list_of_set (driver_number ` set (valid_events pos)) \<and>
    (\<forall>r\<in>set (rows out). \<exists>g.
        mset g = mset (events_of pos (driver_number r)) \<and> g \<noteq> [] \<and>
        sorted_wrt (key_le pos) g \<and>
        (''date'' \<notin> set (columns pos) \<and> ''lap_number'' \<notin> set (columns pos)
           \<longrightarrow> g = events_of pos (driver_number r)) \<and>
        r = agg_last (driver_number r) g \<and> position r = position (last g))"
proof (intro conjI ballI)
  from assms(2) have "map driver_number (rows out) = group_keys (ordered_events srt pos)"
    by (simp add: reduce_positions_Inr comp_def)
  then show "map driver_number (rows out) = sorted_list_of_set (driver_number ` set (valid_events pos))"
    by (simp add: group_keys_set set_ordered_events [OF assms(1)])
next
  fix r assume r: "r \<in> set (rows out)"
  define k where "k = driver_number r"
  define g where "g = filter (\<lambda>e. driver_number e = k) (ordered_events srt pos)"
  note grp = reduced_row_group [OF assms(2) r, folded k_def, folded g_def]
  note gk = group_of_key [OF assms(1), where k = k and pos = pos, folded g_def]
  from grp(1) have ne: "g \<noteq> []"
    unfolding g_def by (auto simp: filter_empty_conv)
  have av: "\<forall>e\<in>set g. position e \<noteq> None"
    unfolding g_def using ordered_events_position [OF assms(1), of _ pos] by simp
  have p: "position r = position (last g)"
    using grp(2) position_agg_last [OF ne av, of k] by simp
  have u: "''date'' \<notin> set (columns pos) \<and> ''lap_number'' \<notin> set (columns pos)
           \<longrightarrow> g = events_of pos k"
    using gk(3) by blast
  show "\<exists>g. mset g = mset (events_of pos (driver_number r)) \<and> g \<noteq> [] \<and>
        sorted_wrt (key_le pos) g \<and>
        (''date'' \<notin> set (columns pos) \<and> ''lap_number'' \<notin> set (columns pos)
           \<longrightarrow> g = events_of pos (driver_number r)) \<and>
        r = agg_last (driver_number r) g \<and> position r = position (last g)"
    unfolding k_def [symmetric]
    using gk(1) ne gk(2) u grp(2) p by (intro exI [of _ g] conjI)
qed

text \<open>
  Claim C3 as stated fails: the reduced row is not one of the events. Driver 1 has two
  events; the later one has no gap, the earlier one has. The reduced row has the position
  and date of the later event and the gap of the earlier one.
\<close>

theorem reduce_positions_mixes_events:
  "reduce_positions stable_sort
     \<lparr>columns = [''driver_number'', ''position'', ''date'', ''gap''],
      rows = [position_event 1 (Some 3) (Some ''2024-05-26T13:10:00'') None (Some (Str ''+2.0'')) None,
              position_event 1 (Some 2) (Some ''2024-05-26T13:20:00'') None None None]\<rparr>
   = Inr \<lparr>columns = [''driver_number'', ''position'', ''date'', ''gap''],
      rows = [position_event 1 (Some 2) (Some ''2024-05-26T13:20:00'') None (Some (Str ''+2.0'')) None]\<rparr> \<and>
   position_event 1 (Some 2) (Some ''2024-05-26T13:20:00'') None (Some (Str ''+2.0'')) None
     \<noteq> position_event 1 (Some 2) (Some ''2024-05-26T13:20:00'') None None None"
  by code_simp

text \<open>
  The amended statement at a session ordered by \<open>lap_number\<close>, with the stable routine.
\<close>

theorem reduce_positions_columnwise_witness:
  "sort_contract stable_sort \<and>
   reduce_positions stable_sort
     \<lparr>columns = [''driver_number'', ''lap_number'', ''position'', ''interval''],
      rows = [position_event 4 (Some 2) None (Some 7) None None,
              position_event 81 (Some 1) None (Some 7) None (Some (Str ''+0.0'')),
              position_event 4 (Some 5) None (Some 3) None (Some (Str ''+3.1'')),
              position_event 81 None None (Some 9) None None]\<rparr>
   = Inr \<lparr>columns = [''driver_number'', ''lap_number'', ''position'', ''interval''],
      rows = [position_event 4 (Some 2) None (Some 7) None (Some (Str ''+3.1'')),
              position_event 81 (Some 1) None (Some 7) None (Some (Str ''+0.0''))]\<rparr> \<and>
   map driver_number
     [position_event 4 (Some 2) None (Some 7) None (Some (Str ''+3.1'')),
      position_event 81 (Some 1) None (Some 7) None (Some (Str ''+0.0''))]
   = sorted_list_of_set (driver_number ` set (valid_events
       \<lparr>columns = [''driver_number'', ''lap_number'', ''position'', ''interval''],
        rows = [position_event 4 (Some 2) None (Some 7) None None,
                position_event 81 (Some 1) None (Some 7) None (Some (Str ''+0.0'')),
                position_event 4 (Some 5) None (Some 3) None (Some (Str ''+3.1'')),
                position_event 81 None None (Some 9) None None]\<rparr>)) \<and>
   (\<exists>g. mset g = mset (events_of
       \<lparr>columns = [''driver_number'', ''lap_number'', ''position'', ''interval''],
        rows = [position_event 4 (Some 2) None (Some 7) None None,
                position_event 81 (Some 1) None (Some 7) None (Some (Str ''+0.0'')),
                position_event 4 (Some 5) None (Some 3) None (Some (Str ''+3.1'')),
                position_event 81 None None (Some 9) None None]\<rparr> 4) \<and>
      position_event 4 (Some 2) None (Some 7) None (Some (Str ''+3.1'')) = agg_last 4 g \<and>
      position (position_event 4 (Some 2) None (Some 7) None (Some (Str ''+3.1''))) = position (last g))"
proof -
  define P where "P = \<lparr>columns = [''driver_number'', ''lap_number'', ''position'', ''interval''],
      rows = [position_event 4 (Some 2) None (Some 7) None None,
              position_event 81 (Some 1) None (Some 7) None (Some (Str ''+0.0'')),
              position_event 4 (Some 5) None (Some 3) None (Some (Str ''+3.1'')),
              position_event 81 None None (Some 9) None None]\<rparr>"
  define r4 where "r4 = position_event 4 (Some 2) None (Some 7) None (Some (Str ''+3.1''))"
  define r81 where "r81 = position_event 81 (Some 1) None (Some 7) None (Some (Str ''+0.0''))"
  define Q where "Q = \<lparr>columns = [''driver_number'', ''lap_number'', ''position'', ''interval''],
      rows = [r4, r81]\<rparr>"
  have red: "reduce_positions stable_sort P = Inr Q"
    unfolding P_def Q_def r4_def r81_def by code_simp
  note T = reduce_positions_columnwise [OF sort_contract_stable_sort red]
  from T have keys: "map driver_number [r4, r81]
      = sorted_list_of_set (driver_number ` set (valid_events P))"
    by (simp add: Q_def)
  have "r4 \<in> set (rows Q)" by (simp add: Q_def)
  with T have "\<exists>g. mset g = mset (events_of P (driver_number r4)) \<and> g \<noteq> [] \<and>
        sorted_wrt (key_le P) g \<and>
        (''date'' \<notin> set (columns P) \<and> ''lap_number'' \<notin> set (columns P)
           \<longrightarrow> g = events_of P (driver_number r4)) \<and>
        r4 = agg_last (driver_number r4) g \<and> position r4 = position (last g)"
    by blast
  moreover have "driver_number r4 = 4" by (simp add: r4_def position_event_def)
  ultimately have ex: "\<exists>g. mset g = mset (events_of P 4) \<and> r4 = agg_last 4 g \<and>
      position r4 = position (last g)"
    by auto
  from sort_contract_stable_sort red keys ex show ?thesis
    unfolding P_def Q_def r4_def r81_def by (intro conjI)
qed

text \<open>
  Rows with a null key are appended behind the sorted ones in arrival order, whatever the
  sorting routine does, so a driver who has events without ordering key ends with the last
  of them in arrival order.
\<close>

lemma last_filter_sort_values:
  assumes "\<exists>e\<in>set rs. P e \<and> key e = None"
  shows "last (filter P (sort_values srt key rs)) = last (filter (\<lambda>e. key e = None) (filter P rs))"
proof -
  have "filter P (filter (\<lambda>e. key e = None) rs) \<noteq> []"
    using assms by (auto simp: filter_empty_conv)
  then have "last (filter P (sort_values srt key rs)) = last (filter P (filter (\<lambda>e. key e = None) rs))"
    by (simp add: sort_values_def)
  also have "filter P (filter (\<lambda>e. key e = None) rs) = filter (\<lambda>e. key e = None) (filter P rs)"
    by (simp add: conj_commute)
  finally show ?thesis .
qed

lemma null_key_last:
  assumes "\<exists>e\<in>set (events_of pos k). key_null pos e"
  shows "last (filter (\<lambda>e. driver_number e = k) (ordered_events srt pos))
         = last (filter (key_null pos) (events_of pos k))"
proof -
  consider (d) "''date'' \<in> set (columns pos)"
    | (l) "''date'' \<notin> set (columns pos)" "''lap_number'' \<in> set (columns pos)"
    | (n) "''date'' \<notin> set (columns pos)" "''lap_number'' \<notin> set (columns pos)"
    by blast
  then show ?thesis
  proof cases
    case d
    then have kn: "key_null pos = (\<lambda>e. date e = None)"
      by (simp add: key_null_def fun_eq_iff)
    have "\<exists>e\<in>set (valid_events pos). driver_number e = k \<and> date e = None"
      using assms by (auto simp: kn events_of_def)
    from last_filter_sort_values [OF this, of srt] d show ?thesis
      by (simp add: ordered_events_def order_events_def kn events_of_def)
  next
    case l
    then have kn: "key_null pos = (\<lambda>e. lap_number e = None)"
      by (simp add: key_null_def fun_eq_iff)
    have "\<exists>e\<in>set (valid_events pos). driver_number e = k \<and> lap_number e = None"
      using assms by (auto simp: kn events_of_def)
    from last_filter_sort_values [OF this, of srt] l show ?thesis
      by (simp add: ordered_events_def order_events_def kn events_of_def)
  next
    case n
    then have kn: "key_null pos = (\<lambda>e. True)"
      by (simp add: key_null_def fun_eq_iff)
    from n show ?thesis
      by (simp add: unordered_events kn events_of_def)
  qed
qed

text \<open>
  Claim C4, amended. The position of a driver's reduced row is the position of one of the
  driver's surviving events whose ordering key no other of them exceeds (a null key is the
  greatest). Where the events that share this key have no ordering key, because the key is
  null or because the session has neither a \<open>date\<close> nor a \<open>lap_number\<close> column, it is the one
  that arrived last, as the claim says. Where they share a key that is not null, it is the
  one the sorting routine puts last, which need not be the one that arrived last.
\<close>

theorem reduce_positions_latest_key:
  assumes "sort_contract srt" and "reduce_positions srt pos = Inr out" and "r \<in> set (rows out)"
  shows "\<exists>e\<in>set (events_of pos (driver_number r)).
           position r = position e \<and>
           (\<forall>e'\<in>set (events_of pos (driver_number r)). key_le pos e' e) \<and>
           (''date'' \<notin> set (columns pos) \<and> ''lap_number'' \<notin> set (columns pos)
              \<longrightarrow> e = last (events_of pos (driver_number r))) \<and>
           ((\<exists>e'\<in>set (events_of pos (driver_number r)). key_null pos e')
              \<longrightarrow> e = last (filter (key_null pos) (events_of pos (driver_number r))))"
proof -
  define k where "k = driver_number r"
  define g where "g = filter (\<lambda>e. driver_number e = k) (ordered_events srt pos)"
  note grp = reduced_row_group [OF assms(2,3), folded k_def, folded g_def]
  note gk = group_of_key [OF assms(1), where k = k and pos = pos, folded g_def]
  from grp(1) have ne: "g \<noteq> []"
    unfolding g_def by (auto simp: filter_empty_conv)
  have mem: "set g = set (events_of pos k)"
    using gk(1) by (metis set_mset_mset)
  have av: "\<forall>e\<in>set g. position e \<noteq> None"
    unfolding g_def using ordered_events_position [OF assms(1), of _ pos] by simp
  have p: "position r = position (last g)"
    using grp(2) position_agg_last [OF ne av, of k] by simp
  have l: "last g \<in> set (events_of pos k)"
    unfolding mem [symmetric] using ne by (rule last_in_set)
  have m: "key_le pos e' (last g)" if "e' \<in> set (events_of pos k)" for e'
  proof (rule sorted_wrt_last [OF gk(2)])
    show "key_le pos x x" for x by (rule key_le_refl)
    show "e' \<in> set g" using that by (simp only: mem)
  qed
  have u: "last g = last (events_of pos k)"
    if "''date'' \<notin> set (columns pos)" "''lap_number'' \<notin> set (columns pos)"
    using gk(3) [OF that] by simp
  have n: "last g = last (filter (key_null pos) (events_of pos k))"
    if "\<exists>e'\<in>set (events_of pos k). key_null pos e'"
    unfolding g_def using that by (rule null_key_last)
  show ?thesis
    unfolding k_def [symmetric]
  proof (intro bexI [of _ "last g"] conjI ballI impI)
    show "position r = position (last g)" by (rule p)
    show "key_le pos e' (last g)" if "e' \<in> set (events_of pos k)" for e'
      using that by (rule m)
    show "last g = last (events_of pos k)"
      if "''date'' \<notin> set (columns pos) \<and> ''lap_number'' \<notin> set (columns pos)"
      using that u by blast
    show "last g = last (filter (key_null pos) (events_of pos k))"
      if "\<exists>e'\<in>set (events_of pos k). key_null pos e'"
      using that by (rule n)
    show "last g \<in> set (events_of pos k)" by (rule l)
  qed
qed

text \<open>
  Claim C4 as stated fails. The feed has eighteen events, all with the same date. Driver 5
  has two of them: \<open>A\<close> at position 3 arrives fifth, \<open>B\<close> at position 2 arrives thirteenth; the
  other sixteen drivers have one event each. The claim has \<open>B\<close> kept. numpy's default
  quicksort, which \<^verbatim>\<open>sort_values("date")\<close> runs on a column of more than seventeen entries,
  partitions around the middle entry and exchanges the entries on either side of it in
  pairs, also when they are equal: the fifth entry and the thirteenth change places, \<open>A\<close>
  comes out behind \<open>B\<close>, and driver 5 is reduced to \<open>A\<close>, position 3. On this feed the
  admissible routine that reverses ties gives the same reduced frame.
\<close>

theorem equal_dates_earlier_event_kept:
  "sort_contract tie_reversing_sort \<and>
   reduce_positions tie_reversing_sort
     \<lparr>columns = [''date'', ''driver_number'', ''position''],
      rows = [position_event 1 (Some 1) (Some ''2024-05-26T13:00:00'') None None None,
              position_event 2 (Some 4) (Some ''2024-05-26T13:00:00'') None None None,
              position_event 3 (Some 5) (Some ''2024-05-26T13:00:00'') None None None,
              position_event 4 (Some 6) (Some ''2024-05-26T13:00:00'') None None None,
              position_event 5 (Some 3) (Some ''2024-05-26T13:00:00'') None None None,
              position_event 6 (Some 7) (Some ''2024-05-26T13:00:00'') None None None,
              position_event 7 (Some 8) (Some ''2024-05-26T13:00:00'') None None None,
              position_event 8 (Some 9) (Some ''2024-05-26T13:00:00'') None None None,
              position_event 9 (Some 10) (Some ''2024-05-26T13:00:00'') None None None,
              position_event 10 (Some 11) (Some ''2024-05-26T13:00:00'') None None None,
              position_event 11 (Some 12) (Some ''2024-05-26T13:00:00'') None None None,
              position_event 12 (Some 13) (Some ''2024-05-26T13:00:00'') None None None,
              position_event 5 (Some 2) (Some ''2024-05-26T13:00:00'') None None None,
              position_event 13 (Some 14) (Some ''2024-05-26T13:00:00'') None None None,
              position_event 14 (Some 15) (Some ''2024-05-26T13:00:00'') None None None,
              position_event 15 (Some 16) (Some ''2024-05-26T13:00:00'') None None None,
              position_event 16 (Some 17) (Some ''2024-05-26T13:00:00'') None None None,
              position_event 17 (Some 18) (Some ''2024-05-26T13:00:00'') None None None]\<rparr>
   = Inr \<lparr>columns = [''driver_number'', ''date'', ''position''],
      rows = [position_event 1 (Some 1) (Some ''2024-05-26T13:00:00'') None None None,
              position_event 2 (Some 4) (Some ''2024-05-26T13:00:00'') None None None,
              position_event 3 (Some 5) (Some ''2024-05-26T13:00:00'') None None None,
              position_event 4 (Some 6) (Some ''2024-05-26T13:00:00'') None None None,
              position_event 5 (Some 3) (Some ''2024-05-26T13:00:00'') None None None,
              position_event 6 (Some 7) (Some ''2024-05-26T13:00:00'') None None None,
              position_event 7 (Some 8) (Some ''2024-05-26T13:00:00'') None None None,
              position_event 8 (Some 9) (Some ''2024-05-26T13:00:00'') None None None,
              position_event 9 (Some 10) (Some ''2024-05-26T13:00:00'') None None None,
              position_event 10 (Some 11) (Some ''2024-05-26T13:00:00'') None None None,
              position_event 11 (Some 12) (Some ''2024-05-26T13:00:00'') None None None,
              position_event 12 (Some 13) (Some ''2024-05-26T13:00:00'') None None None,
              position_event 13 (Some 14) (Some ''2024-05-26T13:00:00'') None None None,
              position_event 14 (Some 15) (Some ''2024-05-26T13:00:00'') None None None,
              position_event 15 (Some 16) (Some ''2024-05-26T13:00:00'') None None None,
              position_event 16 (Some 17) (Some ''2024-05-26T13:00:00'') None None None,
              position_event 17 (Some 18) (Some ''2024-05-26T13:00:00'') None None None]\<rparr>"
proof (intro conjI)
  show "sort_contract tie_reversing_sort" by (rule sort_contract_tie_reversing_sort)
  show "reduce_positions tie_reversing_sort
     \<lparr>columns = [''date'', ''driver_number'', ''position''],
      rows = [position_event 1 (Some 1) (Some ''2024-05-26T13:00:00'') None None None,
              position_event 2 (Some 4) (Some ''2024-05-26T13:00:00'') None None None,
              position_event 3 (Some 5) (Some ''2024-05-26T13:00:00'') None None None,
              position_event 4 (Some 6) (Some ''2024-05-26T13:00:00'') None None None,
              position_event 5 (Some 3) (Some ''2024-05-26T13:00:00'') None None None,
              position_event 6 (Some 7) (Some ''2024-05-26T13:00:00'') None None None,
              position_event 7 (Some 8) (Some ''2024-05-26T13:00:00'') None None None,
              position_event 8 (Some 9) (Some ''2024-05-26T13:00:00'') None None None,
              position_event 9 (Some 10) (Some ''2024-05-26T13:00:00'') None None None,
              position_event 10 (Some 11) (Some ''2024-05-26T13:00:00'') None None None,
              position_event 11 (Some 12) (Some ''2024-05-26T13:00:00'') None None None,
              position_event 12 (Some 13) (Some ''2024-05-26T13:00:00'') None None None,
              position_event 5 (Some 2) (Some ''2024-05-26T13:00:00'') None None None,
              position_event 13 (Some 14) (Some ''2024-05-26T13:00:00'') None None None,
              position_event 14 (Some 15) (Some ''2024-05-26T13:00:00'') None None None,
              position_event 15 (Some 16) (Some ''2024-05-26T13:00:00'') None None None,
              position_event 16 (Some 17) (Some ''2024-05-26T13:00:00'') None None None,
              position_event 17 (Some 18) (Some ''2024-05-26T13:00:00'') None None None]\<rparr>
   = Inr \<lparr>columns = [''driver_number'', ''date'', ''position''],
      rows = [position_event 1 (Some 1) (Some ''2024-05-26T13:00:00'') None None None,
              position_event 2 (Some 4) (Some ''2024-05-26T13:00:00'') None None None,
              position_event 3 (Some 5) (Some ''2024-05-26T13:00:00'') None None None,
              position_event 4 (Some 6) (Some ''2024-05-26T13:00:00'') None None None,
              position_event 5 (Some 3) (Some ''2024-05-26T13:00:00'') None None None,
              position_event 6 (Some 7) (Some ''2024-05-26T13:00:00'') None None None,
              position_event 7 (Some 8) (Some ''2024-05-26T13:00:00'') None None None,
              position_event 8 (Some 9) (Some ''2024-05-26T13:00:00'') None None None,
              position_event 9 (Some 10) (Some ''2024-05-26T13:00:00'') None None None,
              position_event 10 (Some 11) (Some ''2024-05-26T13:00:00'') None None None,
              position_event 11 (Some 12) (Some ''2024-05-26T13:00:00'') None None None,
              position_event 12 (Some 13) (Some ''2024-05-26T13:00:00'') None None None,
              position_event 13 (Some 14) (Some ''2024-05-26T13:00:00'') None None None,
              position_event 14 (Some 15) (Some ''2024-05-26T13:00:00'') None None None,
              position_event 15 (Some 16) (Some ''2024-05-26T13:00:00'') None None None,
              position_event 16 (Some 17) (Some ''2024-05-26T13:00:00'') None None None,
              position_event 17 (Some 18) (Some ''2024-05-26T13:00:00'') None None None]\<rparr>"
    by code_simp
qed

text \<open>
  The amended statement at a driver with three events, of which the two that arrive last
  have a null date: the position is the one of the last of them.
\<close>

theorem reduce_positions_latest_key_witness:
  "sort_contract stable_sort \<and>
   reduce_positions stable_sort
     \<lparr>columns = [''driver_number'', ''position'', ''date''],
      rows = [position_event 63 (Some 4) (Some ''2024-05-26T13:10:00'') None None None,
              position_event 63 (Some 6) None None None None,
              position_event 63 (Some 5) None None None None]\<rparr>
   = Inr \<lparr>columns = [''driver_number'', ''position'', ''date''],
      rows = [position_event 63 (Some 5) (Some ''2024-05-26T13:10:00'') None None None]\<rparr> \<and>
   (\<exists>e\<in>set (events_of
       \<lparr>columns = [''driver_number'', ''position'', ''date''],
      rows = [position_event 63 (Some 4) (Some ''2024-05-26T13:10:00'') None None None,
              position_event 63 (Some 6) None None None None,
              position_event 63 (Some 5) None None None None]\<rparr> 63).
      position (position_event 63 (Some 5) (Some ''2024-05-26T13:10:00'') None None None) = position e \<and>
      (\<forall>e'\<in>set (events_of
          \<lparr>columns = [''driver_number'', ''position'', ''date''],
      rows = [position_event 63 (Some 4) (Some ''2024-05-26T13:10:00'') None None None,
              position_event 63 (Some 6) None None None None,
              position_event 63 (Some 5) None None None None]\<rparr> 63).
          key_le
            \<lparr>columns = [''driver_number'', ''position'', ''date''],
      rows = [position_event 63 (Some 4) (Some ''2024-05-26T13:10:00'') None None None,
              position_event 63 (Some 6) None None None None,
              position_event 63 (Some 5) None None None None]\<rparr>
            e' e) \<and>
      e = last (filter (key_null
            \<lparr>columns = [''driver_number'', ''position'', ''date''],
      rows = [position_event 63 (Some 4) (Some ''2024-05-26T13:10:00'') None None None,
              position_event 63 (Some 6) None None None None,
              position_event 63 (Some 5) None None None None]\<rparr>)
          (events_of
            \<lparr>columns = [''driver_number'', ''position'', ''date''],
      rows = [position_event 63 (Some 4) (Some ''2024-05-26T13:10:00'') None None None,
              position_event 63 (Some 6) None None None None,
              position_event 63 (Some 5) None None None None]\<rparr> 63)) \<and>
      e = position_event 63 (Some 5) None None None None)"
proof -
  define P where "P = \<lparr>columns = [''driver_number'', ''position'', ''date''],
      rows = [position_event 63 (Some 4) (Some ''2024-05-26T13:10:00'') None None None,
              position_event 63 (Some 6) None None None None,
              position_event 63 (Some 5) None None None None]\<rparr>"
  define r where "r = position_event 63 (Some 5) (Some ''2024-05-26T13:10:00'') None None None"
  define Q where "Q = \<lparr>columns = [''driver_number'', ''position'', ''date''], rows = [r]\<rparr>"
  have red: "reduce_positions stable_sort P = Inr Q"
    unfolding P_def Q_def r_def by code_simp
  have mem: "r \<in> set (rows Q)" by (simp add: Q_def)
  have dn: "driver_number r = 63" by (simp add: r_def position_event_def)
  have nk: "\<exists>e'\<in>set (events_of P 63). key_null P e'"
    unfolding P_def by code_simp
  have lst: "last (filter (key_null P) (events_of P 63)) = position_event 63 (Some 5) None None None None"
    unfolding P_def by code_simp
  from reduce_positions_latest_key [OF sort_contract_stable_sort red mem]
  have "\<exists>e\<in>set (events_of P 63). position r = position e \<and>
          (\<forall>e'\<in>set (events_of P 63). key_le P e' e) \<and>
          e = last (filter (key_null P) (events_of P 63))"
    unfolding dn using nk by blast
  then have "\<exists>e\<in>set (events_of P 63). position r = position e \<and>
          (\<forall>e'\<in>set (events_of P 63). key_le P e' e) \<and>
          e = last (filter (key_null P) (events_of P 63)) \<and>
          e = position_event 63 (Some 5) None None None None"
    using lst by auto
  with sort_contract_stable_sort red show ?thesis
    unfolding P_def Q_def r_def by (intro conjI)
qed

section \<open>The Classification Assembler\<close>

lemma reduced_position_valid:
  assumes "sort_contract srt" and "reduce_positions srt pos = Inr out" and "r \<in> set (rows out)"
  shows "position r \<noteq> None"
proof -
  define g where "g = filter (\<lambda>e. driver_number e = driver_number r) (ordered_events srt pos)"
  note grp = reduced_row_group [OF assms(2,3), folded g_def]
  from grp(1) have ne: "g \<noteq> []"
    unfolding g_def by (auto simp: filter_empty_conv)
  have av: "\<forall>e\<in>set g. position e \<noteq> None"
    unfolding g_def using ordered_events_position [OF assms(1), of _ pos] by simp
  have "position r = position (last g)"
    using grp(2) position_agg_last [OF ne av, of "driver_number r"] by simp
  moreover have "last g \<in> set g" using ne by (rule last_in_set)
  ultimately show ?thesis using av by metis
qed

lemma select_columns_Inr:
  "select_columns cs df = Inr out \<Longrightarrow>
     set cs \<subseteq> set (columns df) \<and> columns out = cs \<and> rows out = map (restrict_row cs) (rows df)"
  by (auto simp: select_columns_def filter_empty_conv split: list.splits)

lemma list_by_session_columns:
  assumes "from_json drv_raw" and "list_by_session srt drv_raw = Inr drv"
    and "''driver_number'' \<in> set (columns drv)"
  shows "columns drv = [''driver_number'', ''full_name'', ''team_name'']"
proof (cases "df_empty drv_raw")
  case True
  with assms(1) have "columns drv_raw = []"
    by (auto simp: df_empty_def from_json_def)
  moreover from True assms(2) have "drv = drv_raw"
    by (simp add: list_by_session_def)
  ultimately show ?thesis using assms(3) by simp
next
  case False
  with assms(2) show ?thesis
    by (auto simp: list_by_session_def split: sum.splits dest: select_columns_Inr)
qed

lemma joined_Inr:
  assumes "joined srt pos_raw drv = Inr df"
  obtains pos where "reduce_positions srt pos_raw = Inr pos"
    and "''driver_number'' \<in> set (columns drv)"
    and "columns df = merged_columns (columns pos) (filter (\<lambda>c. c \<noteq> ''driver_number'') (columns drv))"
    and "rows df = concat (map (join_row (filter (\<lambda>c. c \<noteq> ''driver_number'') (columns drv)) (rows drv))
                     (sort_values srt position (rows pos)))"
  using assms
  by (auto simp: joined_def merge_left_def Let_def split: sum.splits if_splits)

lemma finishing_order_Inr:
  assumes "finishing_order srt pos_raw drv_raw = Inr out" and "\<not> df_empty pos_raw"
  obtains drv df where "list_by_session srt drv_raw = Inr drv"
    and "joined srt pos_raw drv = Inr df"
    and "columns out = result_columns"
    and "rows out = map (\<lambda>r. restrict_row result_columns
                         (r\<lparr>gap_to_leader := Some (format_gap (gap_col_of df) r)\<rparr>)) (rows df)"
proof -
  from assms obtain drv df where 1: "list_by_session srt drv_raw = Inr drv"
    and 2: "joined srt pos_raw drv = Inr df"
    and 3: "select_columns result_columns (assign_gap_to_leader df) = Inr out"
    by (auto simp: finishing_order_def split: sum.splits)
  from select_columns_Inr [OF 3] have "columns out = result_columns"
    and "rows out = map (\<lambda>r. restrict_row result_columns
                         (r\<lparr>gap_to_leader := Some (format_gap (gap_col_of df) r)\<rparr>)) (rows df)"
    by (simp_all add: assign_gap_to_leader_def comp_def)
  with 1 2 that show thesis by blast
qed

lemma finishing_order_empty:
  "finishing_order srt pos_raw drv_raw = Inr out \<Longrightarrow> df_empty pos_raw \<Longrightarrow> out = pos_raw"
  by (auto simp: finishing_order_def split: sum.splits)

lemma gap_in_merged:
  "''gap'' \<in> set (merged_columns lc [''full_name'', ''team_name'']) \<longleftrightarrow> ''gap'' \<in> set lc"
  "''interval'' \<in> set (merged_columns lc [''full_name'', ''team_name'']) \<longleftrightarrow> ''interval'' \<in> set lc"
  by (auto simp: merged_columns_def)

lemma format_gap_rule:
  assumes "''gap'' \<in> set (columns df) \<longleftrightarrow> ''gap'' \<in> set cols"
    and "''interval'' \<in> set (columns df) \<longleftrightarrow> ''interval'' \<in> set cols"
  shows "format_gap (gap_col_of df) r = gap_rule cols r"
  using assms
  by (auto simp: format_gap_def gap_col_of_def gap_rule_def designated_gap_def gap_cell_def
      split: option.splits)

text \<open>
  Claim C2: every output row carries in \<open>gap_to_leader\<close> the value the Gap Formatting Rule
  prescribes for the row of the joined frame it comes from: \<open>Leader\<close> at position 1;
  otherwise \<open>N/A\<close> when the position feed has neither a \<open>gap\<close> nor an \<open>interval\<close> column or
  when the designated column (\<open>gap\<close> before \<open>interval\<close>) is null in that row; otherwise the
  cell of the designated column, unchanged. \<open>gap_rule\<close> is the rule as the specification
  words it, read on the columns of the raw position feed.
\<close>

theorem gap_to_leader_rule:
  assumes "from_json drv_raw" and "\<not> df_empty pos_raw"
    and "finishing_order srt pos_raw drv_raw = Inr out"
  shows "\<exists>drv df. list_by_session srt drv_raw = Inr drv \<and> joined srt pos_raw drv = Inr df \<and>
           rows out = map (\<lambda>r. restrict_row result_columns
                               (r\<lparr>gap_to_leader := Some (gap_rule (columns pos_raw) r)\<rparr>)) (rows df)"
proof -
  from finishing_order_Inr [OF assms(3,2)] obtain drv df
    where drv: "list_by_session srt drv_raw = Inr drv"
      and df: "joined srt pos_raw drv = Inr df"
      and rws: "rows out = map (\<lambda>r. restrict_row result_columns
                         (r\<lparr>gap_to_leader := Some (format_gap (gap_col_of df) r)\<rparr>)) (rows df)"
    by blast
  from joined_Inr [OF df] obtain pos where pos: "reduce_positions srt pos_raw = Inr pos"
    and key: "''driver_number'' \<in> set (columns drv)"
    and cols: "columns df = merged_columns (columns pos) (filter (\<lambda>c. c \<noteq> ''driver_number'') (columns drv))"
    by blast
  have "columns drv = [''driver_number'', ''full_name'', ''team_name'']"
    by (rule list_by_session_columns [OF assms(1) drv key])
  with cols have cdf: "columns df = merged_columns (columns pos) [''full_name'', ''team_name'']"
    by simp
  from pos have cpos: "set (columns pos) = insert ''driver_number'' (set (columns pos_raw))"
    by (auto simp: reduce_positions_Inr)
  have "format_gap (gap_col_of df) r = gap_rule (columns pos_raw) r" for r
    by (rule format_gap_rule) (simp_all add: cdf gap_in_merged cpos)
  with drv df rws show ?thesis by simp
qed

text \<open>
  The rule at a session with an \<open>interval\<close> column and no \<open>gap\<close> column: a leader, a row with
  an interval, a row without one.
\<close>

theorem gap_to_leader_rule_witness:
  "from_json
     \<lparr>columns = [''driver_number'', ''full_name'', ''team_name''],
      rows = [driver_record 1 (Some ''A'') (Some ''TeamA'')]\<rparr> \<and>
   \<not> df_empty
     \<lparr>columns = [''driver_number'', ''position'', ''lap_number'', ''interval''],
      rows = [position_event 2 (Some 2) None (Some 5) None (Some (Str ''+1.2s'')),
              position_event 1 (Some 1) None (Some 5) None (Some (Num 0)),
              position_event 7 (Some 3) None (Some 5) None None]\<rparr> \<and>
   finishing_order stable_sort
     \<lparr>columns = [''driver_number'', ''position'', ''lap_number'', ''interval''],
      rows = [position_event 2 (Some 2) None (Some 5) None (Some (Str ''+1.2s'')),
              position_event 1 (Some 1) None (Some 5) None (Some (Num 0)),
              position_event 7 (Some 3) None (Some 5) None None]\<rparr>
     \<lparr>columns = [''driver_number'', ''full_name'', ''team_name''],
      rows = [driver_record 1 (Some ''A'') (Some ''TeamA'')]\<rparr>
   = Inr \<lparr>columns = [''position'', ''driver_number'', ''full_name'', ''team_name'', ''gap_to_leader''],
      rows = [classification_row (Some 1) 1 (Some ''A'') (Some ''TeamA'') (Str ''Leader''),
              classification_row (Some 2) 2 None None (Str ''+1.2s''),
              classification_row (Some 3) 7 None None (Str ''N/A'')]\<rparr> \<and>
   (\<exists>drv df.
      list_by_session stable_sort
        \<lparr>columns = [''driver_number'', ''full_name'', ''team_name''],
      rows = [driver_record 1 (Some ''A'') (Some ''TeamA'')]\<rparr> = Inr drv \<and>
      joined stable_sort
        \<lparr>columns = [''driver_number'', ''position'', ''lap_number'', ''interval''],
      rows = [position_event 2 (Some 2) None (Some 5) None (Some (Str ''+1.2s'')),
              position_event 1 (Some 1) None (Some 5) None (Some (Num 0)),
              position_event 7 (Some 3) None (Some 5) None None]\<rparr> drv = Inr df \<and>
      [classification_row (Some 1) 1 (Some ''A'') (Some ''TeamA'') (Str ''Leader''),
              classification_row (Some 2) 2 None None (Str ''+1.2s''),
              classification_row (Some 3) 7 None None (Str ''N/A'')]
      = map (\<lambda>r. restrict_row result_columns
               (r\<lparr>gap_to_leader := Some (gap_rule
                  [''driver_number'', ''position'', ''lap_number'', ''interval''] r)\<rparr>)) (rows df))"
proof -
  define P where "P = \<lparr>columns = [''driver_number'', ''position'', ''lap_number'', ''interval''],
      rows = [position_event 2 (Some 2) None (Some 5) None (Some (Str ''+1.2s'')),
              position_event 1 (Some 1) None (Some 5) None (Some (Num 0)),
              position_event 7 (Some 3) None (Some 5) None None]\<rparr>"
  define D where "D = \<lparr>columns = [''driver_number'', ''full_name'', ''team_name''],
      rows = [driver_record 1 (Some ''A'') (Some ''TeamA'')]\<rparr>"
  define Q where "Q = \<lparr>columns = [''position'', ''driver_number'', ''full_name'', ''team_name'', ''gap_to_leader''],
      rows = [classification_row (Some 1) 1 (Some ''A'') (Some ''TeamA'') (Str ''Leader''),
              classification_row (Some 2) 2 None None (Str ''+1.2s''),
              classification_row (Some 3) 7 None None (Str ''N/A'')]\<rparr>"
  have j: "from_json D" unfolding D_def by code_simp
  have ne: "\<not> df_empty P" unfolding P_def by code_simp
  have fo: "finishing_order stable_sort P D = Inr Q" unfolding P_def D_def Q_def by code_simp
  have "\<exists>drv df. list_by_session stable_sort D = Inr drv \<and> joined stable_sort P drv = Inr df \<and>
      rows Q = map (\<lambda>r. restrict_row result_columns
               (r\<lparr>gap_to_leader := Some (gap_rule (columns P) r)\<rparr>)) (rows df)"
    by (rule gap_to_leader_rule [OF j ne fo])
  moreover have "columns P = [''driver_number'', ''position'', ''lap_number'', ''interval'']"
    by (simp add: P_def)
  moreover have "rows Q = [classification_row (Some 1) 1 (Some ''A'') (Some ''TeamA'') (Str ''Leader''),
              classification_row (Some 2) 2 None None (Str ''+1.2s''),
              classification_row (Some 3) 7 None None (Str ''N/A'')]"
    by (simp add: Q_def)
  ultimately have ex: "\<exists>drv df. list_by_session stable_sort D = Inr drv \<and> joined stable_sort P drv = Inr df \<and>
      [classification_row (Some 1) 1 (Some ''A'') (Some ''TeamA'') (Str ''Leader''),
              classification_row (Some 2) 2 None None (Str ''+1.2s''),
              classification_row (Some 3) 7 None None (Str ''N/A'')]
      = map (\<lambda>r. restrict_row result_columns
               (r\<lparr>gap_to_leader := Some (gap_rule
                  [''driver_number'', ''position'', ''lap_number'', ''interval''] r)\<rparr>)) (rows df)"
    by simp
  from j ne fo ex show ?thesis
    unfolding P_def D_def Q_def by (intro conjI)
qed

text \<open>
  Claim C5, amended: in every non-empty output, each row whose position is 1 has the
  label \<open>Leader\<close> in \<open>gap_to_leader\<close>. How many such rows there are is not fixed: none,
  one or several.
\<close>

theorem leader_row_label:
  assumes "finishing_order srt pos_raw drv_raw = Inr out" and "\<not> df_empty out"
    and "r \<in> set (rows out)" and "position r = Some 1"
  shows "gap_to_leader r = Some (Str ''Leader'')"
proof -
  from assms(1,2) have ne: "\<not> df_empty pos_raw"
    using finishing_order_empty by blast
  from finishing_order_Inr [OF assms(1) ne] obtain df
    where rws: "rows out = map (\<lambda>r. restrict_row result_columns
                         (r\<lparr>gap_to_leader := Some (format_gap (gap_col_of df) r)\<rparr>)) (rows df)"
    by blast
  with assms(3) obtain r' where r: "r = restrict_row result_columns
      (r'\<lparr>gap_to_leader := Some (format_gap (gap_col_of df) r')\<rparr>)"
    by auto
  with assms(4) have "position r' = Some 1"
    by (simp add: restrict_row_def result_columns_def)
  then show ?thesis
    by (simp add: r restrict_row_def result_columns_def format_gap_def)
qed


text \<open>
  Claim C5 as stated fails: an output need not have exactly one row at position 1. The
  latest known position of the only driver of this feed is 2, so the output is not empty
  and has no row at position 1.
\<close>

theorem no_leader_row:
  "finishing_order stable_sort
     \<lparr>columns = [''driver_number'', ''position'', ''lap_number'', ''interval''],
      rows = [position_event 2 (Some 2) None (Some 5) None (Some (Str ''+1.2s''))]\<rparr>
     \<lparr>columns = [''driver_number'', ''full_name'', ''team_name''],
      rows = [driver_record 1 (Some ''A'') (Some ''TeamA'')]\<rparr>
   = Inr \<lparr>columns = [''position'', ''driver_number'', ''full_name'', ''team_name'', ''gap_to_leader''],
      rows = [classification_row (Some 2) 2 None None (Str ''+1.2s'')]\<rparr> \<and>
   \<not> df_empty \<lparr>columns = [''position'', ''driver_number'', ''full_name'', ''team_name'', ''gap_to_leader''],
      rows = [classification_row (Some 2) 2 None None (Str ''+1.2s'')]\<rparr> \<and>
   length (filter (\<lambda>r. position r = Some 1) [classification_row (Some 2) 2 None None (Str ''+1.2s'')]) \<noteq> 1"
  by code_simp

text \<open>The amended statement at an output that has a leader.\<close>

theorem leader_row_label_witness:
  "finishing_order stable_sort
     \<lparr>columns = [''driver_number'', ''position'', ''lap_number'', ''interval''],
      rows = [position_event 2 (Some 2) None (Some 5) None (Some (Str ''+1.2s'')),
              position_event 1 (Some 1) None (Some 5) None (Some (Num 0)),
              position_event 7 (Some 3) None (Some 5) None None]\<rparr>
     \<lparr>columns = [''driver_number'', ''full_name'', ''team_name''],
      rows = [driver_record 1 (Some ''A'') (Some ''TeamA'')]\<rparr>
   = Inr \<lparr>columns = [''position'', ''driver_number'', ''full_name'', ''team_name'', ''gap_to_leader''],
      rows = [classification_row (Some 1) 1 (Some ''A'') (Some ''TeamA'') (Str ''Leader''),
              classification_row (Some 2) 2 None None (Str ''+1.2s''),
              classification_row (Some 3) 7 None None (Str ''N/A'')]\<rparr> \<and>
   \<not> df_empty
     \<lparr>columns = [''position'', ''driver_number'', ''full_name'', ''team_name'', ''gap_to_leader''],
      rows = [classification_row (Some 1) 1 (Some ''A'') (Some ''TeamA'') (Str ''Leader''),
              classification_row (Some 2) 2 None None (Str ''+1.2s''),
              classification_row (Some 3) 7 None None (Str ''N/A'')]\<rparr> \<and>
   classification_row (Some 1) 1 (Some ''A'') (Some ''TeamA'') (Str ''Leader'')
     \<in> set [classification_row (Some 1) 1 (Some ''A'') (Some ''TeamA'') (Str ''Leader''),
              classification_row (Some 2) 2 None None (Str ''+1.2s''),
              classification_row (Some 3) 7 None None (Str ''N/A'')] \<and>
   position (classification_row (Some 1) 1 (Some ''A'') (Some ''TeamA'') (Str ''Leader'')) = Some 1 \<and>
   gap_to_leader (classification_row (Some 1) 1 (Some ''A'') (Some ''TeamA'') (Str ''Leader''))
     = Some (Str ''Leader'')"
proof -
  define P where "P = \<lparr>columns = [''driver_number'', ''position'', ''lap_number'', ''interval''],
      rows = [position_event 2 (Some 2) None (Some 5) None (Some (Str ''+1.2s'')),
              position_event 1 (Some 1) None (Some 5) None (Some (Num 0)),
              position_event 7 (Some 3) None (Some 5) None None]\<rparr>"
  define D where "D = \<lparr>columns = [''driver_number'', ''full_name'', ''team_name''],
      rows = [driver_record 1 (Some ''A'') (Some ''TeamA'')]\<rparr>"
  define Q where "Q = \<lparr>columns = [''position'', ''driver_number'', ''full_name'', ''team_name'', ''gap_to_leader''],
      rows = [classification_row (Some 1) 1 (Some ''A'') (Some ''TeamA'') (Str ''Leader''),
              classification_row (Some 2) 2 None None (Str ''+1.2s''),
              classification_row (Some 3) 7 None None (Str ''N/A'')]\<rparr>"
  define r where "r = classification_row (Some 1) 1 (Some ''A'') (Some ''TeamA'') (Str ''Leader'')"
  have fo: "finishing_order stable_sort P D = Inr Q" unfolding P_def D_def Q_def by code_simp
  have ne: "\<not> df_empty Q" unfolding Q_def by code_simp
  have mem: "r \<in> set (rows Q)" by (simp add: Q_def r_def)
  have p: "position r = Some 1" by (simp add: r_def classification_row_def)
  have mem': "r \<in> set [classification_row (Some 1) 1 (Some ''A'') (Some ''TeamA'') (Str ''Leader''),
              classification_row (Some 2) 2 None None (Str ''+1.2s''),
              classification_row (Some 3) 7 None None (Str ''N/A'')]"
    using mem by (simp add: Q_def)
  from fo ne mem' p leader_row_label [OF fo ne mem p] show ?thesis
    unfolding P_def D_def Q_def r_def by (intro conjI)
qed

lemma position_join_row:
  assumes "''position'' \<notin> set rc" and "x \<in> set (join_row rc rr a)"
  shows "position x = position a"
  using assms by (auto simp: join_row_def overlay_def split: list.splits)

lemma sorted_wrt_concat_map:
  assumes "sorted_wrt P ls"
    and "\<And>a x y. a \<in> set ls \<Longrightarrow> x \<in> set (J a) \<Longrightarrow> y \<in> set (J a) \<Longrightarrow> Q x y"
    and "\<And>a b x y. a \<in> set ls \<Longrightarrow> b \<in> set ls \<Longrightarrow> P a b \<Longrightarrow> x \<in> set (J a) \<Longrightarrow> y \<in> set (J b) \<Longrightarrow> Q x y"
  shows "sorted_wrt Q (concat (map J ls))"
  using assms
proof (induction ls)
  case Nil
  then show ?case by simp
next
  case (Cons a ls)
  have "sorted_wrt Q (J a)"
    by (rule sorted_wrt_mono_rel [where P = "\<lambda>x y. True"])
       (auto intro: Cons.prems(2) sorted_wrt_all)
  moreover have "sorted_wrt Q (concat (map J ls))"
  proof (rule Cons.IH)
    show "sorted_wrt P ls" using Cons.prems(1) by simp
    show "Q x y" if "c \<in> set ls" "x \<in> set (J c)" "y \<in> set (J c)" for c x y
      using Cons.prems(2) [of c x y] that by simp
    show "Q x y" if "c \<in> set ls" "d \<in> set ls" "P c d" "x \<in> set (J c)" "y \<in> set (J d)"
      for c d x y
      using Cons.prems(3) [of c d x y] that by simp
  qed
  moreover have "\<forall>x\<in>set (J a). \<forall>y\<in>set (concat (map J ls)). Q x y"
    using Cons.prems(1) by (auto intro: Cons.prems(3))
  ultimately show ?case by (simp add: sorted_wrt_append)
qed

lemma joined_positions_sorted:
  assumes srt: "sort_contract srt" and red: "reduce_positions srt pos_raw = Inr pos"
    and rc: "''position'' \<notin> set rc"
  shows "sorted_wrt (\<lambda>x y. the (position x) \<le> the (position y))
           (concat (map (join_row rc rr) (sort_values srt position (rows pos))))"
    and "\<forall>x\<in>set (concat (map (join_row rc rr) (sort_values srt position (rows pos)))). position x \<noteq> None"
proof -
  let ?L = "sort_values srt position (rows pos)"
  have mem: "set ?L = set (rows pos)" by (rule set_sort_values [OF srt])
  have valid: "position a \<noteq> None" if "a \<in> set ?L" for a
    using that reduced_position_valid [OF srt red] by (simp add: mem)
  have sorted: "sorted_wrt (\<lambda>a b. nulls_last_le (position a) (position b)) ?L"
    by (rule sorted_sort_values [OF srt])
  show "sorted_wrt (\<lambda>x y. the (position x) \<le> the (position y)) (concat (map (join_row rc rr) ?L))"
  proof (rule sorted_wrt_concat_map [OF sorted])
    fix a x y assume "a \<in> set ?L" "x \<in> set (join_row rc rr a)" "y \<in> set (join_row rc rr a)"
    then show "the (position x) \<le> the (position y)"
      by (simp add: position_join_row [OF rc])
  next
    fix a b x y
    assume "a \<in> set ?L" "b \<in> set ?L" "nulls_last_le (position a) (position b)"
      "x \<in> set (join_row rc rr a)" "y \<in> set (join_row rc rr b)"
    then show "the (position x) \<le> the (position y)"
      using valid [of a] valid [of b]
      by (auto simp: position_join_row [OF rc] nulls_last_le_def)
  qed
  show "\<forall>x\<in>set (concat (map (join_row rc rr) ?L)). position x \<noteq> None"
    using valid by (auto simp: position_join_row [OF rc])
qed

text \<open>
  Claim C8, amended: for a position feed that is not empty, every output has exactly the
  five columns \<open>position\<close>, \<open>driver_number\<close>, \<open>full_name\<close>, \<open>team_name\<close>, \<open>gap_to_leader\<close>, every
  row has a position, and the rows are in ascending order of position. For an empty
  position feed the output is that empty frame itself, with the columns it has.
\<close>

theorem finishing_order_shape:
  assumes "sort_contract srt" and "from_json drv_raw"
    and "finishing_order srt pos_raw drv_raw = Inr out"
  shows "(df_empty pos_raw \<longrightarrow> out = pos_raw) \<and>
         (\<not> df_empty pos_raw \<longrightarrow>
            columns out = [''position'', ''driver_number'', ''full_name'', ''team_name'', ''gap_to_leader''] \<and>
            (\<forall>r\<in>set (rows out). position r \<noteq> None) \<and>
            sorted (map (\<lambda>r. the (position r)) (rows out)))"
proof (intro conjI impI)
  assume "df_empty pos_raw"
  with assms(3) show "out = pos_raw" by (rule finishing_order_empty)
next
  assume ne: "\<not> df_empty pos_raw"
  from finishing_order_Inr [OF assms(3) ne] obtain drv df
    where drv: "list_by_session srt drv_raw = Inr drv"
      and df: "joined srt pos_raw drv = Inr df"
      and cols: "columns out = result_columns"
      and rws: "rows out = map (\<lambda>r. restrict_row result_columns
                         (r\<lparr>gap_to_leader := Some (format_gap (gap_col_of df) r)\<rparr>)) (rows df)"
    by blast
  from joined_Inr [OF df] obtain pos where pos: "reduce_positions srt pos_raw = Inr pos"
    and key: "''driver_number'' \<in> set (columns drv)"
    and rdf: "rows df = concat (map (join_row (filter (\<lambda>c. c \<noteq> ''driver_number'') (columns drv)) (rows drv))
                     (sort_values srt position (rows pos)))"
    by blast
  have "columns drv = [''driver_number'', ''full_name'', ''team_name'']"
    by (rule list_by_session_columns [OF assms(2) drv key])
  then have rc: "''position'' \<notin> set (filter (\<lambda>c. c \<noteq> ''driver_number'') (columns drv))"
    by simp
  note js = joined_positions_sorted [OF assms(1) pos rc, of "rows drv", folded rdf]
  have p: "map position (rows out) = map position (rows df)"
    by (simp add: rws restrict_row_def result_columns_def comp_def)
  show "columns out = [''position'', ''driver_number'', ''full_name'', ''team_name'', ''gap_to_leader'']"
    using cols by (simp add: result_columns_def)
  show "\<forall>r\<in>set (rows out). position r \<noteq> None"
  proof
    fix r assume "r \<in> set (rows out)"
    then have "position r \<in> set (map position (rows df))"
      unfolding p [symmetric] by simp
    with js(2) show "position r \<noteq> None" by auto
  qed
  have "map (\<lambda>r. the (position r)) (rows out) = map the (map position (rows out))"
    by (simp add: comp_def)
  also have "\<dots> = map (\<lambda>r. the (position r)) (rows df)"
    by (simp only: p) (simp add: comp_def)
  finally show "sorted (map (\<lambda>r. the (position r)) (rows out))"
    using js(1) by (simp add: sorted_map)
qed

text \<open>
  Claim C8 as stated fails for the empty position feed: line 102 returns the fetched
  frame itself, which has no columns at all.
\<close>

theorem empty_feed_has_no_columns:
  "finishing_order stable_sort
     \<lparr>columns = [], rows = []\<rparr>
     \<lparr>columns = [''driver_number'', ''full_name'', ''team_name''],
      rows = [driver_record 1 (Some ''A'') (Some ''TeamA'')]\<rparr>
   = Inr \<lparr>columns = [], rows = []\<rparr> \<and>
   columns \<lparr>columns = [], rows = []\<rparr>
     \<noteq> [''position'', ''driver_number'', ''full_name'', ''team_name'', ''gap_to_leader'']"
  by code_simp

text \<open>The amended statement at a feed of three drivers.\<close>

theorem finishing_order_shape_witness:
  "sort_contract stable_sort \<and>
   from_json
     \<lparr>columns = [''driver_number'', ''full_name'', ''team_name''],
      rows = [driver_record 1 (Some ''A'') (Some ''TeamA'')]\<rparr> \<and>
   finishing_order stable_sort
     \<lparr>columns = [''driver_number'', ''position'', ''lap_number'', ''interval''],
      rows = [position_event 2 (Some 2) None (Some 5) None (Some (Str ''+1.2s'')),
              position_event 1 (Some 1) None (Some 5) None (Some (Num 0)),
              position_event 7 (Some 3) None (Some 5) None None]\<rparr>
     \<lparr>columns = [''driver_number'', ''full_name'', ''team_name''],
      rows = [driver_record 1 (Some ''A'') (Some ''TeamA'')]\<rparr>
   = Inr \<lparr>columns = [''position'', ''driver_number'', ''full_name'', ''team_name'', ''gap_to_leader''],
      rows = [classification_row (Some 1) 1 (Some ''A'') (Some ''TeamA'') (Str ''Leader''),
              classification_row (Some 2) 2 None None (Str ''+1.2s''),
              classification_row (Some 3) 7 None None (Str ''N/A'')]\<rparr> \<and>
   \<not> df_empty
     \<lparr>columns = [''driver_number'', ''position'', ''lap_number'', ''interval''],
      rows = [position_event 2 (Some 2) None (Some 5) None (Some (Str ''+1.2s'')),
              position_event 1 (Some 1) None (Some 5) None (Some (Num 0)),
              position_event 7 (Some 3) None (Some 5) None None]\<rparr> \<and>
   columns \<lparr>columns = [''position'', ''driver_number'', ''full_name'', ''team_name'', ''gap_to_leader''],
      rows = [classification_row (Some 1) 1 (Some ''A'') (Some ''TeamA'') (Str ''Leader''),
              classification_row (Some 2) 2 None None (Str ''+1.2s''),
              classification_row (Some 3) 7 None None (Str ''N/A'')]\<rparr>
     = [''position'', ''driver_number'', ''full_name'', ''team_name'', ''gap_to_leader''] \<and>
   sorted (map (\<lambda>r. the (position r))
     [classification_row (Some 1) 1 (Some ''A'') (Some ''TeamA'') (Str ''Leader''),
              classification_row (Some 2) 2 None None (Str ''+1.2s''),
              classification_row (Some 3) 7 None None (Str ''N/A'')])"
proof -
  define P where "P = \<lparr>columns = [''driver_number'', ''position'', ''lap_number'', ''interval''],
      rows = [position_event 2 (Some 2) None (Some 5) None (Some (Str ''+1.2s'')),
              position_event 1 (Some 1) None (Some 5) None (Some (Num 0)),
              position_event 7 (Some 3) None (Some 5) None None]\<rparr>"
  define D where "D = \<lparr>columns = [''driver_number'', ''full_name'', ''team_name''],
      rows = [driver_record 1 (Some ''A'') (Some ''TeamA'')]\<rparr>"
  define Q where "Q = \<lparr>columns = [''position'', ''driver_number'', ''full_name'', ''team_name'', ''gap_to_leader''],
      rows = [classification_row (Some 1) 1 (Some ''A'') (Some ''TeamA'') (Str ''Leader''),
              classification_row (Some 2) 2 None None (Str ''+1.2s''),
              classification_row (Some 3) 7 None None (Str ''N/A'')]\<rparr>"
  have j: "from_json D" unfolding D_def by code_simp
  have ne: "\<not> df_empty P" unfolding P_def by code_simp
  have fo: "finishing_order stable_sort P D = Inr Q" unfolding P_def D_def Q_def by code_simp
  from finishing_order_shape [OF sort_contract_stable_sort j fo] ne
  have "columns Q = [''position'', ''driver_number'', ''full_name'', ''team_name'', ''gap_to_leader'']"
    and "sorted (map (\<lambda>r. the (position r)) (rows Q))"
    by blast+
  moreover have "rows Q = [classification_row (Some 1) 1 (Some ''A'') (Some ''TeamA'') (Str ''Leader''),
              classification_row (Some 2) 2 None None (Str ''+1.2s''),
              classification_row (Some 3) 7 None None (Str ''N/A'')]"
    by (simp add: Q_def)
  ultimately have "columns Q = [''position'', ''driver_number'', ''full_name'', ''team_name'', ''gap_to_leader'']"
    and "sorted (map (\<lambda>r. the (position r)) [classification_row (Some 1) 1 (Some ''A'') (Some ''TeamA'') (Str ''Leader''),
              classification_row (Some 2) 2 None None (Str ''+1.2s''),
              classification_row (Some 3) 7 None None (Str ''N/A'')])"
    by simp_all
  with sort_contract_stable_sort j fo ne show ?thesis
    unfolding P_def D_def Q_def by (intro conjI)
qed

section \<open>A roster that is not empty\<close>

lemma merged_columns_disjoint:
  "set lc \<inter> set rc = {} \<Longrightarrow> merged_columns lc rc = lc @ rc"
  by (auto simp: merged_columns_def intro!: map_idI)

lemma select_columns_ok:
  "set cs \<subseteq> set (columns df) \<Longrightarrow>
   select_columns cs df = Inr \<lparr>columns = cs, rows = map (restrict_row cs) (rows df)\<rparr>"
proof -
  assume "set cs \<subseteq> set (columns df)"
  then have "filter (\<lambda>c. c \<notin> set (columns df)) cs = []"
    by (auto simp: filter_empty_conv)
  then show ?thesis by (simp add: select_columns_def)
qed

lemma list_by_session_ok:
  assumes "\<not> df_empty drv_raw"
    and "''driver_number'' \<in> set (columns drv_raw)"
    and "''full_name'' \<in> set (columns drv_raw)"
    and "''team_name'' \<in> set (columns drv_raw)"
  shows "list_by_session srt drv_raw =
     Inr \<lparr>columns = [''driver_number'', ''full_name'', ''team_name''],
          rows = sort_values srt (\<lambda>r. Some (driver_number r))
                   (drop_duplicates (map (restrict_row [''driver_number'', ''full_name'', ''team_name''])
                      (rows drv_raw)))\<rparr>"
  using assms by (simp add: list_by_session_def select_columns_ok)

text \<open>
  With a roster that is not empty and has its three columns, and a position feed that is
  not empty, has the columns \<open>position\<close> and \<open>driver_number\<close> and none named like a roster
  column, the call returns a frame.
\<close>

lemma finishing_order_succeeds:
  assumes "\<not> df_empty pos_raw"
    and "''position'' \<in> set (columns pos_raw)"
    and "''driver_number'' \<in> set (columns pos_raw)"
    and "''full_name'' \<notin> set (columns pos_raw)"
    and "''team_name'' \<notin> set (columns pos_raw)"
    and "\<not> df_empty drv_raw"
    and "''driver_number'' \<in> set (columns drv_raw)"
    and "''full_name'' \<in> set (columns drv_raw)"
    and "''team_name'' \<in> set (columns drv_raw)"
  shows "\<exists>drv pos.
      list_by_session srt drv_raw = Inr drv \<and> reduce_positions srt pos_raw = Inr pos \<and>
      finishing_order srt pos_raw drv_raw =
        Inr \<lparr>columns = result_columns,
             rows = map (\<lambda>r. restrict_row result_columns
                          (r\<lparr>gap_to_leader := Some (gap_rule (columns pos_raw) r)\<rparr>))
                      (concat (map (join_row [''full_name'', ''team_name''] (rows drv))
                         (sort_values srt position (rows pos))))\<rparr>"
proof -
  define drv where "drv = \<lparr>columns = [''driver_number'', ''full_name'', ''team_name''],
          rows = sort_values srt (\<lambda>r. Some (driver_number r))
                   (drop_duplicates (map (restrict_row [''driver_number'', ''full_name'', ''team_name''])
                      (rows drv_raw)))\<rparr>"
  have l: "list_by_session srt drv_raw = Inr drv"
    unfolding drv_def by (rule list_by_session_ok [OF assms(6-9)])
  obtain pos where red: "reduce_positions srt pos_raw = Inr pos"
    using assms(2,3) by (simp add: reduce_positions_Inr)
  then have cpos: "columns pos = ''driver_number'' # filter (\<lambda>c. c \<noteq> ''driver_number'') (columns pos_raw)"
    by (simp add: reduce_positions_Inr)
  define df where "df = \<lparr>columns = columns pos @ [''full_name'', ''team_name''],
      rows = concat (map (join_row [''full_name'', ''team_name''] (rows drv))
                         (sort_values srt position (rows pos)))\<rparr>"
  have "set (columns pos) \<inter> set [''full_name'', ''team_name''] = {}"
    using assms(4,5) by (auto simp: cpos)
  then have j: "joined srt pos_raw drv = Inr df"
    by (simp add: joined_def red merge_left_def cpos drv_def df_def merged_columns_disjoint Let_def)
  have g: "format_gap (gap_col_of df) r = gap_rule (columns pos_raw) r" for r
    by (rule format_gap_rule) (auto simp: df_def cpos)
  have "set result_columns \<subseteq> set (columns (assign_gap_to_leader df))"
    using assms(2) by (auto simp: result_columns_def assign_gap_to_leader_def df_def cpos)
  then have "select_columns result_columns (assign_gap_to_leader df)
      = Inr \<lparr>columns = result_columns,
             rows = map (restrict_row result_columns) (rows (assign_gap_to_leader df))\<rparr>"
    by (rule select_columns_ok)
  then have "finishing_order srt pos_raw drv_raw =
        Inr \<lparr>columns = result_columns,
             rows = map (\<lambda>r. restrict_row result_columns
                          (r\<lparr>gap_to_leader := Some (gap_rule (columns pos_raw) r)\<rparr>))
                      (concat (map (join_row [''full_name'', ''team_name''] (rows drv))
                         (sort_values srt position (rows pos))))\<rparr>"
    using assms(1) by (simp add: finishing_order_def l j assign_gap_to_leader_def g comp_def) (simp add: df_def)
  with l red show ?thesis by blast
qed


lemma set_drop_duplicates [simp]: "set (drop_duplicates rs) = set rs"
  by (simp add: drop_duplicates_def)

lemma driver_number_restrict_row [simp]: "driver_number (restrict_row cs r) = driver_number r"
  by (simp add: restrict_row_def)

lemma roster_numbers:
  assumes "sort_contract srt"
  shows "driver_number ` set (sort_values srt key (drop_duplicates (map (restrict_row cs) rs)))
         = driver_number ` set rs"
  by (simp add: set_sort_values [OF assms] image_image)

lemma length_join_row:
  assumes "distinct (map driver_number rr)"
  shows "length (join_row rc rr a) = 1"
proof -
  have "length (filter (\<lambda>b. driver_number b = driver_number a) rr) \<le> 1"
    using assms by (induction rr) (auto simp: filter_empty_conv image_iff)
  then show ?thesis
    by (cases "filter (\<lambda>b. driver_number b = driver_number a) rr") (auto simp: join_row_def)
qed

lemma length_concat_join:
  "distinct (map driver_number rr) \<Longrightarrow> length (concat (map (join_row rc rr) ls)) = length ls"
  by (induction ls) (simp_all add: length_join_row)

lemma distinct_roster:
  assumes "sort_contract srt" and "distinct (map driver_number rs)"
  shows "distinct (map driver_number
           (sort_values srt key (drop_duplicates (map (restrict_row cs) rs))))"
proof -
  let ?rs = "map (restrict_row cs) rs"
  have d: "distinct (map driver_number ?rs)"
    using assms(2) by (simp add: comp_def)
  then have "distinct ?rs" by (rule distinct_map [THEN iffD1, THEN conjunct1])
  then have "drop_duplicates ?rs = ?rs"
    by (simp add: drop_duplicates_def distinct_remdups_id)
  then have "mset (sort_values srt key (drop_duplicates ?rs)) = mset ?rs"
    by (simp only: mset_sort_values [OF assms(1)])
  then have "mset (map driver_number (sort_values srt key (drop_duplicates ?rs)))
      = mset (map driver_number ?rs)"
    by (metis mset_map)
  with d show ?thesis by (metis mset_eq_imp_distinct_iff)
qed

lemma reduced_length:
  assumes "sort_contract srt" and "reduce_positions srt pos_raw = Inr pos"
  shows "length (rows pos) = card (driver_number ` set (valid_events pos_raw))"
proof -
  from assms(2) have "length (rows pos) = length (group_keys (ordered_events srt pos_raw))"
    by (simp add: reduce_positions_Inr)
  also have "\<dots> = card (driver_number ` set (valid_events pos_raw))"
    by (simp add: group_keys_set set_ordered_events [OF assms(1)])
  finally show ?thesis .
qed

text \<open>
  Then, if no two roster records have the same \<open>driver_number\<close>, there are as many output
  rows as drivers among the events that survive the null filter.
\<close>

lemma finishing_order_row_count:
  assumes "sort_contract srt"
    and "\<not> df_empty pos_raw"
    and "''position'' \<in> set (columns pos_raw)"
    and "''driver_number'' \<in> set (columns pos_raw)"
    and "''full_name'' \<notin> set (columns pos_raw)"
    and "''team_name'' \<notin> set (columns pos_raw)"
    and "\<not> df_empty drv_raw"
    and "''driver_number'' \<in> set (columns drv_raw)"
    and "''full_name'' \<in> set (columns drv_raw)"
    and "''team_name'' \<in> set (columns drv_raw)"
    and "distinct (map driver_number (rows drv_raw))"
  shows "\<exists>out. finishing_order srt pos_raw drv_raw = Inr out \<and>
           length (rows out) = card (driver_number ` set (valid_events pos_raw))"
proof -
  from finishing_order_succeeds [OF assms(2-10), of srt] obtain drv pos
    where drv: "list_by_session srt drv_raw = Inr drv"
      and pos: "reduce_positions srt pos_raw = Inr pos"
      and fo: "finishing_order srt pos_raw drv_raw =
        Inr \<lparr>columns = result_columns,
             rows = map (\<lambda>r. restrict_row result_columns
                          (r\<lparr>gap_to_leader := Some (gap_rule (columns pos_raw) r)\<rparr>))
                      (concat (map (join_row [''full_name'', ''team_name''] (rows drv))
                         (sort_values srt position (rows pos))))\<rparr>"
    by blast
  from drv [unfolded list_by_session_ok [OF assms(7-10)]]
  have "rows drv = sort_values srt (\<lambda>r. Some (driver_number r))
                   (drop_duplicates (map (restrict_row [''driver_number'', ''full_name'', ''team_name''])
                      (rows drv_raw)))"
    by auto
  then have "distinct (map driver_number (rows drv))"
    by (simp only: distinct_roster [OF assms(1,11)])
  then have "length (concat (map (join_row [''full_name'', ''team_name''] (rows drv))
                         (sort_values srt position (rows pos)))) = length (sort_values srt position (rows pos))"
    by (rule length_concat_join)
  also have "\<dots> = length (rows pos)"
    using mset_sort_values [OF assms(1), of position "rows pos"] by (metis size_mset)
  also have "\<dots> = card (driver_number ` set (valid_events pos_raw))"
    by (rule reduced_length [OF assms(1) pos])
  finally show ?thesis by (simp add: fo)
qed

text \<open>
  And a classified driver the roster does not list has a row, with null names.
\<close>

lemma finishing_order_unmatched_driver:
  assumes "sort_contract srt"
    and "\<not> df_empty pos_raw"
    and "''position'' \<in> set (columns pos_raw)"
    and "''driver_number'' \<in> set (columns pos_raw)"
    and "''full_name'' \<notin> set (columns pos_raw)"
    and "''team_name'' \<notin> set (columns pos_raw)"
    and "\<not> df_empty drv_raw"
    and "''driver_number'' \<in> set (columns drv_raw)"
    and "''full_name'' \<in> set (columns drv_raw)"
    and "''team_name'' \<in> set (columns drv_raw)"
    and "k \<in> driver_number ` set (valid_events pos_raw)"
    and "k \<notin> driver_number ` set (rows drv_raw)"
  shows "\<exists>out. finishing_order srt pos_raw drv_raw = Inr out \<and>
           (\<exists>r\<in>set (rows out). driver_number r = k \<and> full_name r = None \<and> team_name r = None)"
proof -
  from finishing_order_succeeds [OF assms(2-10), of srt] obtain drv pos
    where drv: "list_by_session srt drv_raw = Inr drv"
      and pos: "reduce_positions srt pos_raw = Inr pos"
      and fo: "finishing_order srt pos_raw drv_raw =
        Inr \<lparr>columns = result_columns,
             rows = map (\<lambda>r. restrict_row result_columns
                          (r\<lparr>gap_to_leader := Some (gap_rule (columns pos_raw) r)\<rparr>))
                      (concat (map (join_row [''full_name'', ''team_name''] (rows drv))
                         (sort_values srt position (rows pos))))\<rparr>"
    by blast
  from drv [unfolded list_by_session_ok [OF assms(7-10)]]
  have "rows drv = sort_values srt (\<lambda>r. Some (driver_number r))
                   (drop_duplicates (map (restrict_row [''driver_number'', ''full_name'', ''team_name''])
                      (rows drv_raw)))"
    by auto
  then have "driver_number ` set (rows drv) = driver_number ` set (rows drv_raw)"
    by (simp only: roster_numbers [OF assms(1)])
  with assms(12) have nomatch: "filter (\<lambda>b. driver_number b = k) (rows drv) = []"
    by (auto simp: filter_empty_conv)
  from pos have "set (map driver_number (rows pos)) = driver_number ` set (valid_events pos_raw)"
    by (simp add: reduce_positions_Inr comp_def distinct_group_keys set_ordered_events [OF assms(1)])
  with assms(11) have "k \<in> driver_number ` set (rows pos)"
    by simp
  then obtain a where a: "a \<in> set (rows pos)" "driver_number a = k"
    by (auto simp: image_iff)
  then have aL: "a \<in> set (sort_values srt position (rows pos))"
    by (simp add: set_sort_values [OF assms(1)])
  define x where "x = overlay [''full_name'', ''team_name''] a null_row"
  have "join_row [''full_name'', ''team_name''] (rows drv) a = [x]"
    by (simp add: join_row_def a(2) nomatch x_def)
  with aL have mem: "x \<in> set (concat (map (join_row [''full_name'', ''team_name''] (rows drv))
                         (sort_values srt position (rows pos))))"
    by force
  define F where "F = (\<lambda>r. restrict_row result_columns
                          (r\<lparr>gap_to_leader := Some (gap_rule (columns pos_raw) r)\<rparr>))"
  define out where "out = \<lparr>columns = result_columns,
             rows = map F (concat (map (join_row [''full_name'', ''team_name''] (rows drv))
                         (sort_values srt position (rows pos))))\<rparr>"
  have "finishing_order srt pos_raw drv_raw = Inr out"
    unfolding out_def F_def by (rule fo)
  moreover have "F x \<in> set (rows out)"
    using mem by (simp add: out_def)
  moreover have "driver_number (F x) = k" "full_name (F x) = None" "team_name (F x) = None"
    by (simp_all add: F_def restrict_row_def x_def overlay_def null_row_def a(2))
  ultimately show ?thesis by blast
qed

section \<open>An empty roster\<close>

text \<open>
  When the \<^verbatim>\<open>drivers\<close> request fails or returns no record, \<^verbatim>\<open>list_by_session\<close> hands back a
  frame without columns, and the join on \<^verbatim>\<open>driver_number\<close> raises \<^verbatim>\<open>KeyError\<close> whatever the
  position feed holds.
\<close>

text \<open>
  Claim C1: for positions that are non-empty after the null filter, \<^verbatim>\<open>finishing_order\<close>
  completes whatever the roster holds, also when the roster is entirely empty, and emits
  the row with null names. At one classified driver and an empty roster the code raises
  instead; the theorem evaluates it there.
\<close>

theorem finishing_order_empty_roster_raises:
  "finishing_order srt
     \<lparr>columns = [''driver_number'', ''position'', ''date''],
      rows = [position_event 1 (Some 1) (Some ''2024-05-26T13:03:35'') None None None]\<rparr>
     no_data
   = Inl (KeyError ''driver_number'')"
  by (simp add: finishing_order_def list_by_session_def df_empty_def no_data_def joined_def
      reduce_positions_def notna_position_def order_events_def groupby_last_def merge_left_def)

text \<open>
  Claim C6: the number of output rows equals the number of distinct drivers among the
  events that survive the null filter, whatever the roster. With two classified drivers
  and an empty roster there is no output at all: the call raises.
\<close>

theorem finishing_order_two_drivers_empty_roster:
  "finishing_order srt
     \<lparr>columns = [''driver_number'', ''position''],
      rows = [position_event 44 (Some 2) None None None None,
              position_event 16 (Some 1) None None None None]\<rparr>
     no_data
   = Inl (KeyError ''driver_number'')"
  by (simp add: finishing_order_def list_by_session_def df_empty_def no_data_def joined_def
      reduce_positions_def notna_position_def order_events_def groupby_last_def merge_left_def)

text \<open>
  Claim C7: when every event of the position feed has a null position, \<^verbatim>\<open>finishing_order\<close>
  returns an empty result and does not raise. The emptiness test of the code comes before
  the null filter, so such a feed goes on to the join; with an empty roster the join
  raises.
\<close>

theorem finishing_order_all_null_empty_roster:
  "finishing_order srt
     \<lparr>columns = [''driver_number'', ''position''],
      rows = [position_event 3 None None None None None]\<rparr>
     no_data
   = Inl (KeyError ''driver_number'')"
  by (simp add: finishing_order_def list_by_session_def df_empty_def no_data_def joined_def
      reduce_positions_def notna_position_def order_events_def groupby_last_def merge_left_def)

section \<open>The two files agree\<close>

lemma list_by_session_comments_eq:
  "list_by_session_comments srt df = list_by_session srt df"
  by (simp add: list_by_session_comments_def list_by_session_def df_empty_def
      select_columns_def split: list.splits)

lemma format_gap_comments_eq: "format_gap_comments gc r = format_gap gc r"
  by (simp add: format_gap_comments_def format_gap_def split: option.splits)

text \<open>
  Claim C10: \<^verbatim>\<open>ResultsService.finishing_order\<close> of \<^verbatim>\<open>f1_comments.py\<close> and of \<^verbatim>\<open>f1.py\<close> return
  the same frame, or raise the same error, on every pair of fetched frames and with every
  sorting routine.
\<close>

theorem finishing_order_comments_eq:
  "finishing_order_comments srt pos_raw drv_raw = finishing_order srt pos_raw drv_raw"
  by (simp add: finishing_order_comments_def finishing_order_def list_by_session_comments_eq
      format_gap_comments_eq df_empty_def joined_def reduce_positions_def notna_position_def
      order_events_def gap_col_of_def assign_gap_to_leader_def result_columns_def Let_def
      split: sum.splits)

end
